theory Spec2Isabelle
  imports Complex_Main "HOL-Library.Word" "HOL-Library.Char_ord" "HOL-Library.List_Lexorder"
    "HOL-Library.Product_Lexorder" "HOL-Library.Multiset"
begin

section \<open>stxtyper.cpp: data model\<close>

text \<open>
  The embedding follows \<^verbatim>\<open>src/stxtyper.cpp\<close>. \<^verbatim>\<open>size_t\<close> is a 64-bit word, so \<open>+\<close>,
  \<open>-\<close> and \<open>*\<close> wrap as in the source. \<^verbatim>\<open>std::string\<close> is \<open>string\<close>, compared
  lexicographically by byte value as \<^verbatim>\<open>std::string::operator<\<close> does. A \<^verbatim>\<open>QC_ASSERT\<close> or
  \<^verbatim>\<open>ASSERT\<close> that fails (\<^verbatim>\<open>NDEBUG\<close> is undefined in the source, so both are active) is a
  value of type \<open>error\<close>. A \<^verbatim>\<open>char\<close> is ordered by its byte value, which is the order of
  the source for the ASCII letters that name a subunit.

  Modelled from the spec: the macros \<^verbatim>\<open>QC_ASSERT\<close>, \<^verbatim>\<open>ASSERT\<close>, \<^verbatim>\<open>IMPLY\<close>, \<^verbatim>\<open>QC_IMPLY\<close>,
  \<^verbatim>\<open>FFOR\<close>, \<^verbatim>\<open>FOR_START\<close> and \<^verbatim>\<open>FFOR_START\<close>, the empty string \<^verbatim>\<open>noString\<close> and the
  containers \<^verbatim>\<open>Vector\<close>, \<^verbatim>\<open>VectorPtr\<close> and \<^verbatim>\<open>VectorOwn\<close> come from \<^verbatim>\<open>common.hpp\<close>, which is
  not part of the sources at hand. They are read as the consistency checks that abort
  the run, the counting loops over a half-open index range, and the vectors with
  \<^verbatim>\<open><<\<close> for appending that the source uses them as.

  A \<^verbatim>\<open>double\<close> is modelled by its exact value: a non-negative rational, the infinity
  that a division of a positive count by zero yields, or NaN (zero by zero). Rounding
  is not modelled. The quotients of the source are quotients of two counts compared
  with 1.0 or with a three-digit threshold; for counts below \<open>2^52 / 1000\<close> the rounded
  comparison and the exact one agree.
\<close>

datatype error = QcAssertFailed | AssertFailed | LengthError | OutOfRange | RuntimeError

datatype double = Fin rat | PosInf | NaN

definition ddiv :: "nat \<Rightarrow> nat \<Rightarrow> double" where
  "ddiv n d = (if d = 0 then (if n = 0 then NaN else PosInf) else Fin (of_nat n / of_nat d))"

fun dless :: "double \<Rightarrow> double \<Rightarrow> bool" where
  "dless (Fin a) (Fin b) = (a < b)"
| "dless (Fin a) PosInf = True"
| "dless _ _ = False"

fun deq :: "double \<Rightarrow> double \<Rightarrow> bool" where
  "deq (Fin a) (Fin b) = (a = b)"
| "deq PosInf PosInf = True"
| "deq _ _ = False"

definition dge :: "double \<Rightarrow> double \<Rightarrow> bool" where
  "dge a b = (dless b a \<or> deq a b)"

fun dmul100 :: "double \<Rightarrow> double" where
  "dmul100 (Fin a) = Fin (a * 100)"
| "dmul100 d = d"

text \<open>The constants marked \<^verbatim>\<open>// PAR\<close> at lines 78-81.\<close>

definition intergenic_max :: "64 word" where
  "intergenic_max = 36"

definition slack :: "64 word" where
  "slack = 30"

definition stxS :: string where
  "stxS = ''stx''"

definition noString :: string where
  "noString = []"

text \<open>
  The table \<^verbatim>\<open>stxClass2identity\<close> as \<^verbatim>\<open>shellBody\<close> fills it (lines 735-751). A lookup with
  \<^verbatim>\<open>operator[]\<close> of a class that is not a key yields 0.0.
\<close>

definition stxClass2identity_table :: "(string \<times> rat) list" where
  "stxClass2identity_table =
    [(''1a'', 983 / 1000), (''1c'', 983 / 1000), (''1d'', 983 / 1000), (''1e'', 983 / 1000),
     (''2'', 98 / 100), (''2b'', 98 / 100), (''2e'', 98 / 100), (''2f'', 98 / 100),
     (''2g'', 98 / 100), (''2h'', 98 / 100), (''2i'', 98 / 100), (''2j'', 98 / 100),
     (''2k'', 985 / 1000), (''2l'', 985 / 1000), (''2m'', 98 / 100), (''2n'', 98 / 100),
     (''2o'', 98 / 100)]"

definition stxClass2identity :: "string \<Rightarrow> double" where
  "stxClass2identity c =
    (case map_of stxClass2identity_table c of None \<Rightarrow> Fin 0 | Some r \<Rightarrow> Fin r)"

record BlastAlignment =
  length_al :: "64 word"
  nident :: "64 word"
  refStart :: "64 word"
  refEnd :: "64 word"
  refLen :: "64 word"
  targetStart :: "64 word"
  targetEnd :: "64 word"
  targetLen :: "64 word"
  stopCodon :: bool
  frameshift :: bool
  targetName :: string
  targetSeq :: string
  targetStrand :: bool
  refAccession :: string
  refSeq :: string
  stxType :: string
  stxClass :: string
  stxSuperClass :: string
  subunit :: char
  reported :: bool

text \<open>\<^verbatim>\<open>s [i]\<close> on a \<^verbatim>\<open>const std::string\<close>: the character, the null character at
  \<^verbatim>\<open>i == s.size ()\<close>, and undefined beyond.\<close>

definition strAt :: "string \<Rightarrow> nat \<Rightarrow> char option" where
  "strAt s i = (if i < length s then Some (s ! i)
                else if i = length s then Some (CHR 0x00) else None)"

section \<open>BlastAlignment: derived quantities\<close>

definition getFrame :: "BlastAlignment \<Rightarrow> 64 word" where
  "getFrame al = (targetStart al mod 3) + 1"

definition getIdentity :: "BlastAlignment \<Rightarrow> double" where
  "getIdentity al = ddiv (unat (nident al)) (unat (length_al al))"

definition getAbsCoverage :: "BlastAlignment \<Rightarrow> 64 word" where
  "getAbsCoverage al = refEnd al - refStart al"

definition getRelCoverage :: "BlastAlignment \<Rightarrow> double" where
  "getRelCoverage al = ddiv (unat (getAbsCoverage al)) (unat (refLen al))"

definition getDiff :: "BlastAlignment \<Rightarrow> 64 word" where
  "getDiff al = refStart al + (refLen al - refEnd al) + (length_al al - nident al)"

definition truncated :: "BlastAlignment \<Rightarrow> bool" where
  "truncated al =
    ((targetStart al \<le> 3 \<and>
        ((targetStrand al \<and> refStart al \<noteq> 0) \<or> (\<not> targetStrand al \<and> refEnd al + 1 < refLen al)))
     \<or> (targetLen al - targetEnd al \<le> 3 \<and>
        ((targetStrand al \<and> refEnd al + 1 < refLen al) \<or> (\<not> targetStrand al \<and> refStart al \<noteq> 0))))"

definition missed_max :: "64 word" where
  "missed_max = intergenic_max + 3 * 20"

definition otherTruncated :: "BlastAlignment \<Rightarrow> bool" where
  "otherTruncated al =
    ((targetStrand al = (subunit al = CHR ''B'') \<and> targetStart al \<le> missed_max)
     \<or> (targetStrand al = (subunit al = CHR ''A'') \<and> targetLen al - targetEnd al \<le> missed_max))"

definition getExtended :: "BlastAlignment \<Rightarrow> bool" where
  "getExtended al = (refStart al = 0 \<and> refEnd al + 1 = refLen al)"

definition insideEq :: "BlastAlignment \<Rightarrow> BlastAlignment \<Rightarrow> bool" where
  "insideEq al other = (targetStart al \<ge> targetStart other \<and> targetEnd al \<le> targetEnd other)"

text \<open>
  \<^verbatim>\<open>refMap\<close> (lines 285-293). The loop appends \<^verbatim>\<open>targetSeq [i]\<close> for every column \<open>i\<close>
  where \<^verbatim>\<open>refSeq [i]\<close> is not a gap. \<^verbatim>\<open>string (len - refEnd, '-')\<close> with \<^verbatim>\<open>refEnd > len\<close>
  asks for a wrapped-around size and throws \<^verbatim>\<open>std::length_error\<close>. The source calls
  \<^verbatim>\<open>refMap\<close> with 320 and with 90; the limits of allocation are not modelled.
\<close>

fun refMapLoop :: "string \<Rightarrow> string \<Rightarrow> nat \<Rightarrow> string \<Rightarrow> string option" where
  "refMapLoop [] t i s = Some s"
| "refMapLoop (r # rs) t i s =
    (if r \<noteq> CHR ''-''
     then (case strAt t i of None \<Rightarrow> None | Some c \<Rightarrow> refMapLoop rs t (Suc i) (s @ [c]))
     else refMapLoop rs t (Suc i) s)"

definition refMap :: "BlastAlignment \<Rightarrow> 64 word \<Rightarrow> error + string" where
  "refMap al len =
    (if \<not> refLen al \<le> len then Inl QcAssertFailed
     else case refMapLoop (refSeq al) (targetSeq al) 0 (replicate (unat (refStart al)) CHR ''-'') of
            None \<Rightarrow> Inl OutOfRange
          | Some s \<Rightarrow>
              if len < refEnd al then Inl LengthError
              else Inr (s @ replicate (unat (len - refEnd al)) CHR ''-''))"

section \<open>BlastAlignment: construction\<close>

text \<open>
  The constructor (lines 117-177) reads ten whitespace-separated fields from the line
  with \<^verbatim>\<open>iss >> ...\<close>. The model starts from the ten values the extraction leaves in
  the fields; an extraction that fails leaves the remaining strings empty, which the
  first \<^verbatim>\<open>QC_ASSERT\<close> rejects.
\<close>

record RawFields =
  f_targetName :: string
  f_sseqid :: string
  f_targetStart :: "64 word"
  f_targetEnd :: "64 word"
  f_targetLen :: "64 word"
  f_refStart :: "64 word"
  f_refEnd :: "64 word"
  f_refLen :: "64 word"
  f_targetSeq :: string
  f_refSeq :: string

text \<open>
  Modelled from the spec: \<^verbatim>\<open>rfindSplit\<close> and \<^verbatim>\<open>isLeft\<close> are declared in \<^verbatim>\<open>common.hpp\<close>, which
  is not part of the sources at hand. \<open>rfindSplit s c\<close> is the "fixed delimiter split
  from the right": the part of \<open>s\<close> after the last \<open>c\<close>, and what is left of \<open>s\<close>
  before that \<open>c\<close> (all of \<open>s\<close> and nothing when \<open>c\<close> does not occur). \<open>isLeft s p\<close>:
  \<open>s\<close> begins with \<open>p\<close>.
\<close>

definition rfindSplit :: "string \<Rightarrow> char \<Rightarrow> string \<times> string" where
  "rfindSplit s c =
    (if c \<in> set s
     then (rev (takeWhile (\<lambda>x. x \<noteq> c) (rev s)), rev (tl (dropWhile (\<lambda>x. x \<noteq> c) (rev s))))
     else (s, []))"

definition isLeft :: "string \<Rightarrow> string \<Rightarrow> bool" where
  "isLeft s p = (take (length p) s = p)"

fun countIdent :: "string \<Rightarrow> string \<Rightarrow> 64 word" where
  "countIdent (t # ts) (r # rs) = (if t = r then 1 else 0) + countIdent ts rs"
| "countIdent _ _ = 0"

definition foldClass :: "string \<Rightarrow> string" where
  "foldClass ty = (if ty = ''2a'' \<or> ty = ''2c'' \<or> ty = ''2d'' then ''2'' else ty)"

definition findStopCodon :: "string \<Rightarrow> bool" where
  "findStopCodon ts = (length (takeWhile (\<lambda>x. x \<noteq> CHR ''*'') ts) + 1 < length ts)"

definition BlastAlignment_of :: "RawFields \<Rightarrow> error + BlastAlignment" where
  "BlastAlignment_of f =
    (if f_targetSeq f = [] then Inl QcAssertFailed
     else
       let famId = fst (rfindSplit (f_sseqid f) CHR ''|'');
           acc = fst (rfindSplit (snd (rfindSplit (f_sseqid f) CHR ''|'')) CHR ''|'')
       in
       if length famId \<noteq> 6 then Inl QcAssertFailed
       else if \<not> isLeft famId stxS then Inl QcAssertFailed
       else if length (f_targetSeq f) \<noteq> length (f_refSeq f) then Inl QcAssertFailed
       else if \<not> f_refStart f < f_refEnd f then Inl QcAssertFailed
       else if \<not> f_targetStart f \<noteq> f_targetEnd f then Inl QcAssertFailed
       else
         let strand = (f_targetStart f < f_targetEnd f);
             tStart = (if strand then f_targetStart f else f_targetEnd f);
             tEnd = (if strand then f_targetEnd f else f_targetStart f)
         in
         if \<not> f_refStart f \<ge> 1 then Inl QcAssertFailed
         else if \<not> tStart \<ge> 1 then Inl QcAssertFailed
         else Inr
           \<lparr> length_al = of_nat (length (f_targetSeq f)),
             nident = countIdent (f_targetSeq f) (f_refSeq f),
             refStart = f_refStart f - 1,
             refEnd = f_refEnd f,
             refLen = f_refLen f,
             targetStart = tStart - 1,
             targetEnd = tEnd,
             targetLen = f_targetLen f,
             stopCodon = findStopCodon (f_targetSeq f),
             frameshift = False,
             targetName = f_targetName f,
             targetSeq = f_targetSeq f,
             targetStrand = strand,
             refAccession = acc,
             refSeq = f_refSeq f,
             stxType = drop 4 famId,
             stxClass = foldClass (drop 4 famId),
             stxSuperClass = take 1 (foldClass (drop 4 famId)),
             subunit = famId ! 3,
             reported = False \<rparr>)"

text \<open>\<^verbatim>\<open>BlastAlignment::qc\<close> (lines 178-204): every \<^verbatim>\<open>QC_ASSERT\<close> holds, or checking is off.\<close>

definition qc :: "bool \<Rightarrow> BlastAlignment \<Rightarrow> bool" where
  "qc qc_on al =
    (if qc_on then
       length_al al \<noteq> 0 \<and> nident al \<noteq> 0 \<and> nident al \<le> length_al al
       \<and> targetStart al < targetEnd al \<and> targetEnd al \<le> targetLen al
       \<and> refStart al < refEnd al \<and> refEnd al \<le> refLen al
       \<and> (if \<not> frameshift al
            then nident al \<le> refEnd al - refStart al \<and> refEnd al - refStart al \<le> length_al al
            else True)
       \<and> targetName al \<noteq> []
       \<and> stxClass al \<in> set (map fst stxClass2identity_table)
       \<and> isLeft (stxType al) (stxClass al)
       \<and> (subunit al = CHR ''A'' \<or> subunit al = CHR ''B'')
       \<and> refAccession al \<noteq> [] \<and> targetSeq al \<noteq> [] \<and> refSeq al \<noteq> []
       \<and> length (targetSeq al) = length (refSeq al)
       \<and> (if \<not> frameshift al then length_al al = of_nat (length (targetSeq al)) else True)
       \<and> length (stxType al) = 2
     else True)"

section \<open>Frameshift merger\<close>

text \<open>\<^verbatim>\<open>BlastAlignment::merge\<close> (lines 242-259), applied to the later hit \<open>al\<close>.\<close>

definition merge :: "BlastAlignment \<Rightarrow> BlastAlignment \<Rightarrow> error + BlastAlignment" where
  "merge al prev =
    (if \<not> (targetName al = targetName prev) then Inl AssertFailed
     else if \<not> (refAccession al = refAccession prev) then Inl AssertFailed
     else if \<not> (targetStrand al = targetStrand prev) then Inl AssertFailed
     else if \<not> (targetLen al = targetLen prev) then Inl AssertFailed
     else if \<not> (refLen al = refLen prev) then Inl AssertFailed
     else if \<not> (targetStart al > targetStart prev) then Inl AssertFailed
     else Inr (al
       \<lparr> targetStart := targetStart prev,
         refStart := (if targetStrand al then refStart prev else refStart al),
         refEnd := (if targetStrand al then refEnd al else refEnd prev),
         length_al := length_al al + length_al prev,
         nident := nident al + nident prev,
         stopCodon := (if stopCodon prev then True else stopCodon al),
         frameshift := True \<rparr>))"

text \<open>
  The condition of the scan at lines 803-810. \<^verbatim>\<open>(int)\<close> keeps the low 32 bits of a
  \<^verbatim>\<open>size_t\<close>, read as two's complement; the difference is taken in the integers.
\<close>

definition mergeCond :: "BlastAlignment \<Rightarrow> BlastAlignment \<Rightarrow> bool" where
  "mergeCond al prev =
    (targetName al = targetName prev
     \<and> targetStrand al = targetStrand prev
     \<and> refAccession al = refAccession prev
     \<and> targetStart al > targetStart prev
     \<and> sint (ucast (targetStart al) :: 32 word) - sint (ucast (targetEnd prev) :: 32 word) < 10
     \<and> getFrame al \<noteq> getFrame prev)"

text \<open>
  Modelled from the spec: the macro \<^verbatim>\<open>LESS_PART\<close> of \<^verbatim>\<open>common.hpp\<close> is not part of the
  sources at hand. A comparator made of \<^verbatim>\<open>LESS_PART\<close> lines orders by the listed keys
  in turn ("sort by (contig, strand, ...)"): the first key that differs decides.
\<close>

definition LESS_PART :: "'k::linorder \<Rightarrow> 'k \<Rightarrow> bool \<Rightarrow> bool" where
  "LESS_PART x y rest = (if x < y then True else if y < x then False else rest)"

definition frameshiftLess :: "BlastAlignment \<Rightarrow> BlastAlignment \<Rightarrow> bool" where
  "frameshiftLess a b =
    LESS_PART (targetName a) (targetName b)
     (LESS_PART (targetStrand a) (targetStrand b)
       (LESS_PART (refAccession a) (refAccession b)
         (LESS_PART (targetStart a) (targetStart b)
           (LESS_PART (targetEnd a) (targetEnd b) False))))"

text \<open>
  Modelled from the spec: \<^verbatim>\<open>Vector::sort\<close> is declared in \<^verbatim>\<open>common.hpp\<close>, which is not part
  of the sources at hand. The spec speaks of "multi-key stable sorting": the model is
  the stable insertion sort by the comparator, which takes the elements from left to
  right and puts each one behind the elements it is not less than. Elements that the
  comparator does not separate keep the order they came in.
\<close>

fun insort_by :: "('a \<Rightarrow> 'a \<Rightarrow> bool) \<Rightarrow> 'a \<Rightarrow> 'a list \<Rightarrow> 'a list" where
  "insort_by lt x [] = [x]"
| "insort_by lt x (y # ys) = (if lt x y then x # y # ys else y # insort_by lt x ys)"

definition sort_by :: "('a \<Rightarrow> 'a \<Rightarrow> bool) \<Rightarrow> 'a list \<Rightarrow> 'a list" where
  "sort_by lt xs = foldl (\<lambda>sorted x. insort_by lt x sorted) [] xs"

text \<open>
  The scan of lines 799-818 over the sorted hits. \<open>prev\<close> is the hit the pointer
  \<^verbatim>\<open>prev\<close> points to, with what the scan has already done to it; a hit is put out when
  the scan moves past it.
\<close>

fun frameshiftScan ::
  "bool \<Rightarrow> BlastAlignment option \<Rightarrow> BlastAlignment list \<Rightarrow> error + BlastAlignment list" where
  "frameshiftScan qc_on None [] = Inr []"
| "frameshiftScan qc_on (Some p) [] = Inr [p]"
| "frameshiftScan qc_on None (al # als) = frameshiftScan qc_on (Some al) als"
| "frameshiftScan qc_on (Some p) (al # als) =
    (if mergeCond al p then
       (case merge al p of
          Inl e \<Rightarrow> Inl e
        | Inr al' \<Rightarrow>
            if \<not> qc qc_on al' then Inl QcAssertFailed
            else (case frameshiftScan qc_on (Some al') als of
                    Inl e \<Rightarrow> Inl e
                  | Inr r \<Rightarrow> Inr (p\<lparr>reported := True\<rparr> # r)))
     else
       (case frameshiftScan qc_on (Some al) als of
          Inl e \<Rightarrow> Inl e
        | Inr r \<Rightarrow> Inr (p # r)))"

definition findFrameshifts :: "bool \<Rightarrow> BlastAlignment list \<Rightarrow> error + BlastAlignment list" where
  "findFrameshifts qc_on blastAls = frameshiftScan qc_on None (sort_by frameshiftLess blastAls)"

section \<open>Rendering\<close>

datatype cell = S string | N "64 word" | C char | D double

definition saveTsvOut :: "string \<Rightarrow> bool \<Rightarrow> BlastAlignment \<Rightarrow> cell list" where
  "saveTsvOut input_name verboseP al =
    (if input_name \<noteq> [] then [S input_name] else [])
    @ [S (targetName al),
       S (stxS @ (if verboseP then subunit al # stxType al
                  else [case stxType al of [] \<Rightarrow> CHR 0x00 | c # _ \<Rightarrow> c])),
       S (if frameshift al then ''FRAMESHIFT''
          else if stopCodon al then ''INTERNAL_STOP''
          else if truncated al \<or> otherTruncated al then ''PARTIAL_CONTIG_END''
          else if verboseP \<and> deq (getRelCoverage al) (Fin 1) then ''COMPLETE_SUBUNIT''
          else if getExtended al then ''EXTENDED''
          else ''PARTIAL''),
       S noString,
       N (targetStart al + 1),
       N (targetEnd al),
       C (if targetStrand al then CHR ''+'' else CHR ''-'')]
    @ (if subunit al = CHR ''B'' then [S noString, S noString, S noString] else [])
    @ [S (refAccession al), D (dmul100 (getIdentity al)), D (dmul100 (getRelCoverage al))]
    @ (if subunit al = CHR ''A'' then [S noString, S noString, S noString] else [])"

section \<open>Operon\<close>

text \<open>
  An \<^verbatim>\<open>Operon\<close> holds two pointers to hits; \<open>al2\<close> is \<open>None\<close> for the null pointer of a
  singleton. The methods below only read the hits, so they take the hits pointed to.
\<close>

record Operon =
  al1 :: BlastAlignment
  al2 :: "BlastAlignment option"

definition getA :: "BlastAlignment \<Rightarrow> BlastAlignment \<Rightarrow> BlastAlignment" where
  "getA a1 a2 = (if targetStrand a1 then a1 else a2)"

definition getB :: "BlastAlignment \<Rightarrow> BlastAlignment \<Rightarrow> BlastAlignment" where
  "getB a1 a2 = (if targetStrand a1 then a2 else a1)"

definition hasAl2 :: "Operon \<Rightarrow> bool" where
  "hasAl2 op = (al2 op \<noteq> None)"

definition getRefAccession2 :: "Operon \<Rightarrow> string" where
  "getRefAccession2 op = (case al2 op of Some a2 \<Rightarrow> refAccession a2 | None \<Rightarrow> noString)"

text \<open>
  \<^verbatim>\<open>getStxType\<close> indexes the two projections with \<^verbatim>\<open>a [312]\<close>, \<^verbatim>\<open>a [318]\<close> and \<^verbatim>\<open>b [34]\<close>
  (lines 475-490) and checks no bound. A read beyond the end of a string is undefined
  in C++; the program goes on with the byte that it finds there. \<open>past s i\<close> stands for
  the byte found at index \<open>i\<close> beyond the end of \<open>s\<close>: it is a parameter of the model, so
  that nothing is said about its value.
\<close>

type_synonym past_end = "string \<Rightarrow> nat \<Rightarrow> char"

definition charAt :: "past_end \<Rightarrow> string \<Rightarrow> nat \<Rightarrow> char" where
  "charAt past s i = (case strAt s i of Some c \<Rightarrow> c | None \<Rightarrow> past s i)"

text \<open>
  The class-2 rule of \<^verbatim>\<open>getStxType\<close> (lines 475-492); \<open>a i\<close> and \<open>b i\<close> are the reads
  \<^verbatim>\<open>a [i]\<close> and \<^verbatim>\<open>b [i]\<close>. The source evaluates \<^verbatim>\<open>&&\<close> from left to right: it reads
  \<^verbatim>\<open>a [318]\<close> only where \<^verbatim>\<open>a [312]\<close> has passed, and \<^verbatim>\<open>b [34]\<close> only where \<^verbatim>\<open>a [318]\<close> has
  passed as well; with \<open>verboseP\<close> it reads all three for the string it returns. A read
  changes nothing, so the value is that of the conditions as they stand.
\<close>

definition class2Type :: "bool \<Rightarrow> (nat \<Rightarrow> char) \<Rightarrow> (nat \<Rightarrow> char) \<Rightarrow> string" where
  "class2Type verboseP a b =
    (if (a 312 = CHR ''F'' \<or> a 312 = CHR ''S'')
        \<and> (a 318 = CHR ''K'' \<or> a 318 = CHR ''E'')
        \<and> b 34 = CHR ''D''
       then ''2a''
     else if a 312 = CHR ''F''
        \<and> (a 318 = CHR ''K'' \<or> a 318 = CHR ''E'')
        \<and> b 34 = CHR ''N''
       then ''2c''
     else if a 312 = CHR ''S''
        \<and> a 318 = CHR ''E''
        \<and> b 34 = CHR ''N''
       then ''2d''
     else if verboseP then ''2 '' @ [a 312, a 318, b 34]
     else ''2'')"

definition getStxType :: "past_end \<Rightarrow> bool \<Rightarrow> Operon \<Rightarrow> error + string" where
  "getStxType past verboseP op =
    (case al2 op of
       None \<Rightarrow> Inr (stxType (al1 op))
     | Some a2 \<Rightarrow>
         if stxClass (al1 op) \<noteq> stxClass a2 then
           (if stxSuperClass (al1 op) = stxSuperClass a2 then Inr (stxSuperClass (al1 op))
            else Inr noString)
         else if stxClass (al1 op) \<noteq> ''2'' then Inr (stxType (al1 op))
         else
           (case refMap (getA (al1 op) a2) (319 + 1) of
              Inl e \<Rightarrow> Inl e
            | Inr a \<Rightarrow>
               (case refMap (getB (al1 op) a2) (89 + 1) of
                  Inl e \<Rightarrow> Inl e
                | Inr b \<Rightarrow>
                   Inr (class2Type verboseP (charAt past a) (charAt past b)))))"

definition partial :: "BlastAlignment \<Rightarrow> BlastAlignment \<Rightarrow> bool" where
  "partial a1 a2 =
    ((dless (getRelCoverage (getA a1 a2)) (Fin 1) \<and> \<not> getExtended (getA a1 a2))
     \<or> (dless (getRelCoverage (getB a1 a2)) (Fin 1) \<and> \<not> getExtended (getB a1 a2)))"

definition Operon_getIdentity :: "BlastAlignment \<Rightarrow> BlastAlignment \<Rightarrow> double" where
  "Operon_getIdentity a1 a2 =
    ddiv (unat (nident a1 + nident a2)) (unat (length_al a1 + length_al a2))"

text \<open>The two locals \<^verbatim>\<open>novel\<close> and \<^verbatim>\<open>operonType\<close> of \<^verbatim>\<open>Operon::saveTsvOut\<close> (lines 391-420);
  \<open>ty\<close> is the resolved type string.\<close>

definition novel :: "BlastAlignment \<Rightarrow> BlastAlignment \<Rightarrow> string \<Rightarrow> bool" where
  "novel a1 a2 ty =
    (stxClass a1 \<noteq> stxClass a2
     \<or> dless (Operon_getIdentity a1 a2) (stxClass2identity (stxClass a1))
     \<or> length ty \<le> 1)"

definition standard :: string where
  "standard = ''COMPLETE''"

definition operonType :: "BlastAlignment \<Rightarrow> BlastAlignment \<Rightarrow> string \<Rightarrow> string" where
  "operonType a1 a2 ty =
    (if frameshift (getA a1 a2) \<or> frameshift (getB a1 a2) then ''FRAMESHIFT''
     else if stopCodon (getA a1 a2) \<or> stopCodon (getB a1 a2) then ''INTERNAL_STOP''
     else if truncated (getA a1 a2) \<or> truncated (getB a1 a2) then ''PARTIAL_CONTIG_END''
     else if partial a1 a2 then ''PARTIAL''
     else if getExtended (getA a1 a2) \<or> getExtended (getB a1 a2) then ''EXTENDED''
     else if novel a1 a2 ty then standard @ ''_NOVEL''
     else standard)"

text \<open>The type string written to the row: \<^verbatim>\<open>stxType. erase (1)\<close> keeps the first character
  (lines 421-424).\<close>

definition reportedStxType :: "BlastAlignment \<Rightarrow> BlastAlignment \<Rightarrow> string \<Rightarrow> string" where
  "reportedStxType a1 a2 ty =
    (if operonType a1 a2 ty \<noteq> standard \<and> length ty \<ge> 2 then take 1 ty else ty)"

definition Operon_saveTsvOut ::
  "past_end \<Rightarrow> string \<Rightarrow> bool \<Rightarrow> Operon \<Rightarrow> error + cell list" where
  "Operon_saveTsvOut past input_name verboseP op =
    (case al2 op of
       Some a2 \<Rightarrow>
         (case getStxType past verboseP op of
            Inl e \<Rightarrow> Inl e
          | Inr ty \<Rightarrow>
              Inr ((if input_name \<noteq> [] then [S input_name] else [])
                @ [S (targetName (al1 op)),
                   S (stxS @ reportedStxType (al1 op) a2 ty),
                   S (operonType (al1 op) a2 ty),
                   D (dmul100 (Operon_getIdentity (al1 op) a2)),
                   N (targetStart (al1 op) + 1),
                   N (targetEnd a2),
                   C (if targetStrand (al1 op) then CHR ''+'' else CHR ''-''),
                   S (refAccession (getA (al1 op) a2)),
                   D (dmul100 (getIdentity (getA (al1 op) a2))),
                   D (dmul100 (getRelCoverage (getA (al1 op) a2))),
                   S (refAccession (getB (al1 op) a2)),
                   D (dmul100 (getIdentity (getB (al1 op) a2))),
                   D (dmul100 (getRelCoverage (getB (al1 op) a2)))]))
     | None \<Rightarrow> Inr (saveTsvOut input_name verboseP (al1 op)))"

section \<open>Hit-level redundancy filter\<close>

definition sameTypeLess :: "BlastAlignment \<Rightarrow> BlastAlignment \<Rightarrow> bool" where
  "sameTypeLess a b =
    LESS_PART (reported a) (reported b)
     (LESS_PART (targetName a) (targetName b)
       (LESS_PART (targetStrand a) (targetStrand b)
         (LESS_PART (stxClass a) (stxClass b)
           (LESS_PART (subunit a) (subunit b)
             (LESS_PART (targetStart a) (targetStart b)
               (LESS_PART (getDiff a) (getDiff b)
                 (LESS_PART (refAccession a) (refAccession b) False)))))))"

text \<open>The condition under which the window start stays (lines 832-836).\<close>

definition inWindow :: "BlastAlignment \<Rightarrow> BlastAlignment \<Rightarrow> bool" where
  "inWindow s al =
    (targetName s = targetName al \<and> targetStrand s = targetStrand al
     \<and> stxClass s = stxClass al \<and> subunit s = subunit al
     \<and> targetEnd s > targetStart al)"

function advanceStart :: "BlastAlignment list \<Rightarrow> nat \<Rightarrow> nat \<Rightarrow> nat" where
  "advanceStart xs start i =
    (if start < i \<and> \<not> inWindow (xs ! start) (xs ! i)
     then advanceStart xs (Suc start) i else start)"
  by pat_completeness auto
termination
  by (relation "measure (\<lambda>(xs, start, i). i - start)") auto

text \<open>The loop over \<open>j\<close> from \<open>start\<close> to \<open>i\<close> (lines 844-861): the value of \<^verbatim>\<open>suppress\<close>.\<close>

function suppressLoop :: "BlastAlignment list \<Rightarrow> nat \<Rightarrow> nat \<Rightarrow> error + bool" where
  "suppressLoop xs j i =
    (if j < i then
       (if reported (xs ! j) then Inl AssertFailed
        else if \<not> (targetName (xs ! i) = targetName (xs ! j)) then Inl AssertFailed
        else if \<not> (targetStrand (xs ! i) = targetStrand (xs ! j)) then Inl AssertFailed
        else if \<not> (stxClass (xs ! i) = stxClass (xs ! j)) then Inl AssertFailed
        else if \<not> (subunit (xs ! i) = subunit (xs ! j)) then Inl AssertFailed
        else if insideEq (xs ! i) (xs ! j) \<and> getDiff (xs ! i) \<ge> getDiff (xs ! j) then Inr True
        else suppressLoop xs (Suc j) i)
     else Inr False)"
  by pat_completeness auto
termination
  by (relation "measure (\<lambda>(xs, j, i). i - j)") auto

function filterLoop ::
  "BlastAlignment list \<Rightarrow> nat \<Rightarrow> nat \<Rightarrow> BlastAlignment list \<Rightarrow> error + BlastAlignment list" where
  "filterLoop xs start i good =
    (if i < length xs then
       (if reported (xs ! i) then Inr good
        else
          (case suppressLoop xs (advanceStart xs start i) i of
             Inl e \<Rightarrow> Inl e
           | Inr suppress \<Rightarrow>
               filterLoop xs (advanceStart xs start i) (Suc i)
                 (if \<not> suppress then good @ [xs ! i] else good)))
     else Inr good)"
  by pat_completeness auto
termination
  by (relation "measure (\<lambda>(xs, start, i, good). length xs - i)") auto

definition goodBlasts :: "BlastAlignment list \<Rightarrow> error + BlastAlignment list" where
  "goodBlasts blastAls = filterLoop (sort_by sameTypeLess blastAls) 0 0 []"

section \<open>Operon assembler\<close>

text \<open>
  The hits that \<^verbatim>\<open>goodBlastAls\<close> points to are the list \<open>heap\<close>; a pointer is a position
  in it. \<^verbatim>\<open>goodBlastAls\<close> is a list of pointers, an operon of the assembler a pair of
  pointers. Setting \<^verbatim>\<open>reported\<close> through a pointer updates the heap. Writing to the log
  is left out.
\<close>

type_synonym ptr = nat

type_synonym asm_state = "BlastAlignment list \<times> (ptr \<times> ptr) list"

definition setReported :: "BlastAlignment list \<Rightarrow> ptr \<Rightarrow> BlastAlignment list" where
  "setReported heap p = heap [p := (heap ! p) \<lparr>reported := True\<rparr>]"

definition less_al :: "BlastAlignment \<Rightarrow> BlastAlignment \<Rightarrow> bool" where
  "less_al a b =
    LESS_PART (targetName a) (targetName b)
     (LESS_PART (targetStrand a) (targetStrand b)
       (LESS_PART (subunit a) (subunit b)
         (LESS_PART (targetStart a) (targetStart b)
           (LESS_PART (getDiff a) (getDiff b)
             (LESS_PART (refAccession a) (refAccession b) False)))))"

text \<open>The condition under which the scan start stays (lines 552-556).\<close>

definition pairWindow :: "bool \<Rightarrow> BlastAlignment \<Rightarrow> BlastAlignment \<Rightarrow> bool" where
  "pairWindow sameType s alB =
    (targetName s = targetName alB \<and> targetStrand s = targetStrand alB
     \<and> (\<not> sameType \<or> stxClass s = stxClass alB))"

function pairStart :: "BlastAlignment list \<Rightarrow> ptr list \<Rightarrow> bool \<Rightarrow> nat \<Rightarrow> nat \<Rightarrow> nat" where
  "pairStart heap good sameType start i =
    (if start < i \<and> \<not> pairWindow sameType (heap ! (good ! start)) (heap ! (good ! i))
     then pairStart heap good sameType (Suc start) i else start)"
  by pat_completeness auto
termination
  by (relation "measure (\<lambda>(heap, good, sameType, start, i). i - start)") auto

text \<open>The gap test of lines 577-578 and the identity test of lines 587-590.\<close>

definition gapOk :: "bool \<Rightarrow> BlastAlignment \<Rightarrow> BlastAlignment \<Rightarrow> bool" where
  "gapOk strong a1 a2 =
    (targetEnd a1 \<le> targetStart a2
     \<and> targetStart a2 - targetEnd a1 \<le> intergenic_max * (if strong then 1 else 2))"

definition identityOk :: "bool \<Rightarrow> BlastAlignment \<Rightarrow> BlastAlignment \<Rightarrow> bool" where
  "identityOk strong a1 a2 =
    (\<not> strong
     \<or> (dge (Operon_getIdentity a1 a2) (stxClass2identity (stxClass a1))
        \<and> dge (Operon_getIdentity a1 a2) (stxClass2identity (stxClass a2))))"

text \<open>The loop over \<open>j\<close> from \<open>start\<close> to \<open>i\<close> (lines 560-598).\<close>

function pairLoop ::
  "ptr list \<Rightarrow> bool \<Rightarrow> bool \<Rightarrow> nat \<Rightarrow> nat \<Rightarrow> asm_state \<Rightarrow> error + asm_state" where
  "pairLoop good sameType strong i j st =
    (if j < i then
       (let heap = fst st; alA = heap ! (good ! j); alB = heap ! (good ! i) in
        if reported alA then pairLoop good sameType strong i (Suc j) st
        else if \<not> (targetName alA = targetName alB) then Inl AssertFailed
        else if \<not> (targetStrand alA = targetStrand alB) then Inl AssertFailed
        else if sameType \<and> \<not> (stxClass alA = stxClass alB) then Inl AssertFailed
        else if \<not> (subunit alA \<le> subunit alB) then Inl AssertFailed
        else if subunit alA = subunit alB then Inr st
        else if \<not> (subunit alA = CHR ''A'') then Inl AssertFailed
        else
          (let p1 = (if targetStrand alA then good ! j else good ! i);
               p2 = (if targetStrand alA then good ! i else good ! j)
           in
           if gapOk strong (heap ! p1) (heap ! p2) \<and> identityOk strong (heap ! p1) (heap ! p2)
           then pairLoop good sameType strong i (Suc j)
                  (setReported (setReported heap p1) p2, snd st @ [(p1, p2)])
           else pairLoop good sameType strong i (Suc j) st))
     else Inr st)"
  by pat_completeness auto
termination
  by (relation "measure (\<lambda>(good, sameType, strong, i, j, st). i - j)") auto

text \<open>The loop over \<open>i\<close> (lines 542-599).\<close>

function operonLoop ::
  "ptr list \<Rightarrow> bool \<Rightarrow> bool \<Rightarrow> nat \<Rightarrow> nat \<Rightarrow> asm_state \<Rightarrow> error + asm_state" where
  "operonLoop good sameType strong start i st =
    (if i < length good then
       (if reported (fst st ! (good ! i)) then operonLoop good sameType strong start (Suc i) st
        else if subunit (fst st ! (good ! i)) \<noteq> CHR ''B''
          then operonLoop good sameType strong start (Suc i) st
        else
          (case pairLoop good sameType strong i (pairStart (fst st) good sameType start i) st of
             Inl e \<Rightarrow> Inl e
           | Inr st' \<Rightarrow>
               operonLoop good sameType strong (pairStart (fst st) good sameType start i)
                 (Suc i) st'))
     else Inr st)"
  by pat_completeness auto
termination
  by (relation "measure (\<lambda>(good, sameType, strong, start, i, st). length good - i)") auto

text \<open>Suppression of the hits an operon covers (lines 607-624).\<close>

definition coveredBy :: "BlastAlignment list \<Rightarrow> BlastAlignment \<Rightarrow> ptr \<times> ptr \<Rightarrow> bool" where
  "coveredBy heap al op =
    (targetName al = targetName (heap ! fst op)
     \<and> targetStart al + slack \<ge> targetStart (heap ! fst op)
     \<and> targetEnd al \<le> targetEnd (heap ! snd op) + slack
     \<and> targetStrand al = targetStrand (heap ! fst op))"

fun suppressByOperons ::
  "(ptr \<times> ptr) list \<Rightarrow> ptr list \<Rightarrow> BlastAlignment list \<Rightarrow> BlastAlignment list" where
  "suppressByOperons operons [] heap = heap"
| "suppressByOperons operons (p # ps) heap =
    suppressByOperons operons ps
      (if \<not> reported (heap ! p) \<and> list_ex (coveredBy heap (heap ! p)) operons
       then setReported heap p else heap)"

definition goodBlasts2operons ::
  "ptr list \<Rightarrow> bool \<Rightarrow> bool \<Rightarrow> asm_state \<Rightarrow> error + asm_state" where
  "goodBlasts2operons good sameType strong st =
    (if sameType \<and> \<not> strong then Inl AssertFailed
     else case operonLoop good sameType strong 0 0 st of
            Inl e \<Rightarrow> Inl e
          | Inr st' \<Rightarrow> Inr (suppressByOperons (snd st') good (fst st'), snd st'))"

section \<open>Operon redundancy, singletons and the report\<close>

type_synonym operon_ptr = "ptr \<times> ptr option"

definition deref :: "BlastAlignment list \<Rightarrow> operon_ptr \<Rightarrow> Operon" where
  "deref heap op = \<lparr> al1 = heap ! fst op, al2 = map_option (\<lambda>p. heap ! p) (snd op) \<rparr>"

text \<open>\<^verbatim>\<open>LESS_PART\<close> on two \<^verbatim>\<open>double\<close> keys.\<close>

definition LESS_PART_double :: "double \<Rightarrow> double \<Rightarrow> bool \<Rightarrow> bool" where
  "LESS_PART_double x y rest = (if dless x y then True else if dless y x then False else rest)"

text \<open>\<^verbatim>\<open>Operon::getIdentity\<close> reads \<^verbatim>\<open>al2\<close>; the source calls it on paired operons only.\<close>

definition Operon_identity :: "Operon \<Rightarrow> double" where
  "Operon_identity op = (case al2 op of Some a2 \<Rightarrow> Operon_getIdentity (al1 op) a2 | None \<Rightarrow> NaN)"

text \<open>\<^verbatim>\<open>Operon::operator<\<close> (lines 506-514).\<close>

definition Operon_less :: "Operon \<Rightarrow> Operon \<Rightarrow> bool" where
  "Operon_less this other =
    LESS_PART (targetName (al1 this)) (targetName (al1 other))
     (LESS_PART_double (Operon_identity other) (Operon_identity this)
       (LESS_PART (hasAl2 this) (hasAl2 other)
         (LESS_PART (refAccession (al1 this)) (refAccession (al1 other))
           (LESS_PART (hasAl2 this) (hasAl2 other)
             (LESS_PART (getRefAccession2 this) (getRefAccession2 other) False)))))"

text \<open>\<^verbatim>\<open>Operon::reportLess\<close> (lines 515-525).\<close>

definition Operon_reportLess :: "Operon \<Rightarrow> Operon \<Rightarrow> bool" where
  "Operon_reportLess a b =
    LESS_PART (targetName (al1 a)) (targetName (al1 b))
     (LESS_PART (targetStart (al1 a)) (targetStart (al1 b))
       (LESS_PART (targetEnd (al1 a)) (targetEnd (al1 b))
         (LESS_PART (targetStrand (al1 b)) (targetStrand (al1 a))
           (LESS_PART (refAccession (al1 a)) (refAccession (al1 b))
             (LESS_PART (hasAl2 a) (hasAl2 b)
               (LESS_PART (getRefAccession2 a) (getRefAccession2 b) False))))))"

text \<open>\<^verbatim>\<open>Operon::insideEq\<close> (lines 501-505), on two paired operons.\<close>

definition Operon_insideEq ::
  "BlastAlignment \<times> BlastAlignment \<Rightarrow> BlastAlignment \<times> BlastAlignment \<Rightarrow> bool" where
  "Operon_insideEq this other =
    (targetStrand (fst this) = targetStrand (fst other)
     \<and> targetStart (fst this) + slack \<ge> targetStart (fst other)
     \<and> targetEnd (snd this) \<le> targetEnd (snd other) + slack)"

text \<open>\<^verbatim>\<open>Operon::qc\<close> (lines 369-383).\<close>

definition Operon_qc :: "bool \<Rightarrow> Operon \<Rightarrow> bool" where
  "Operon_qc qc_on op =
    (if qc_on then
       qc qc_on (al1 op) \<and> reported (al1 op)
       \<and> (case al2 op of
            None \<Rightarrow> True
          | Some a2 \<Rightarrow>
              qc qc_on a2
              \<and> targetName (al1 op) = targetName a2
              \<and> targetStrand (al1 op) = targetStrand a2
              \<and> targetEnd (al1 op) < targetStart a2
              \<and> subunit (al1 op) \<noteq> subunit a2
              \<and> reported a2)
     else True)"

text \<open>
  The loop of lines 888-904 over the sorted operons. \<^verbatim>\<open>op. saveTsvOut (logTd, true)\<close>
  resolves the type whether or not a log is written, so its failure ends the run.
\<close>

definition coveredByGood :: "BlastAlignment list \<Rightarrow> ptr \<times> ptr \<Rightarrow> ptr \<times> ptr \<Rightarrow> bool" where
  "coveredByGood heap op goodOp =
    (targetName (heap ! fst op) = targetName (heap ! fst goodOp)
     \<and> Operon_insideEq (heap ! fst op, heap ! snd op) (heap ! fst goodOp, heap ! snd goodOp)
     \<and> dge (Operon_getIdentity (heap ! fst goodOp) (heap ! snd goodOp))
            (Operon_getIdentity (heap ! fst op) (heap ! snd op)))"

fun goodOperonsLoop ::
  "past_end \<Rightarrow> bool \<Rightarrow> string \<Rightarrow> BlastAlignment list \<Rightarrow> (ptr \<times> ptr) list \<Rightarrow> (ptr \<times> ptr) list
    \<Rightarrow> error + (ptr \<times> ptr) list" where
  "goodOperonsLoop past qc_on input_name heap [] goodOperons = Inr goodOperons"
| "goodOperonsLoop past qc_on input_name heap (op # ops) goodOperons =
    (case Operon_saveTsvOut past input_name True (deref heap (fst op, Some (snd op))) of
       Inl e \<Rightarrow> Inl e
     | Inr row \<Rightarrow>
         if \<not> Operon_qc qc_on (deref heap (fst op, Some (snd op))) then Inl QcAssertFailed
         else goodOperonsLoop past qc_on input_name heap ops
                (if list_ex (coveredByGood heap op) goodOperons then goodOperons
                 else goodOperons @ [op]))"

text \<open>\<^verbatim>\<open>BlastAlignment::reportLess\<close> (lines 335-347).\<close>

definition reportLess :: "BlastAlignment \<Rightarrow> BlastAlignment \<Rightarrow> bool" where
  "reportLess a b =
    LESS_PART (reported a) (reported b)
     (LESS_PART (targetName a) (targetName b)
       (LESS_PART (targetStrand a) (targetStrand b)
         (LESS_PART (getAbsCoverage b) (getAbsCoverage a)
           (LESS_PART (getDiff a) (getDiff b)
             (LESS_PART (targetStart a) (targetStart b)
               (LESS_PART (refAccession a) (refAccession b) False))))))"

text \<open>The nested loop of lines 910-936: the remaining hits become singleton operons.\<close>

function singlesInner :: "ptr list \<Rightarrow> nat \<Rightarrow> nat \<Rightarrow> BlastAlignment list \<Rightarrow> BlastAlignment list" where
  "singlesInner good i j heap =
    (if j < length good then
       (let a1 = heap ! (good ! i); a2 = heap ! (good ! j) in
        if \<not> (targetName a2 = targetName a1 \<and> targetStrand a2 = targetStrand a1) then heap
        else singlesInner good i (Suc j)
               (if \<not> reported a2 \<and> insideEq a2 a1
                   \<and> (strAt (stxType a2) 0 = strAt (stxType a1) 0 \<or> getDiff a2 \<ge> getDiff a1)
                then setReported heap (good ! j) else heap))
     else heap)"
  by pat_completeness auto
termination
  by (relation "measure (\<lambda>(good, i, j, heap). length good - j)") auto

function singlesLoop ::
  "ptr list \<Rightarrow> nat \<Rightarrow> BlastAlignment list \<times> operon_ptr list
    \<Rightarrow> BlastAlignment list \<times> operon_ptr list" where
  "singlesLoop good i st =
    (if i < length good then
       (if reported (fst st ! (good ! i)) then singlesLoop good (Suc i) st
        else singlesLoop good (Suc i)
               (singlesInner good i (Suc i) (fst st), snd st @ [(good ! i, None)]))
     else st)"
  by pat_completeness auto
termination
  by (relation "measure (\<lambda>(good, i, st). length good - i)") auto

fun saveAll :: "past_end \<Rightarrow> string \<Rightarrow> Operon list \<Rightarrow> error + cell list list" where
  "saveAll past input_name [] = Inr []"
| "saveAll past input_name (op # ops) =
    (case Operon_saveTsvOut past input_name False op of
       Inl e \<Rightarrow> Inl e
     | Inr row \<Rightarrow> (case saveAll past input_name ops of Inl e \<Rightarrow> Inl e | Inr rows \<Rightarrow> Inr (row # rows)))"

definition header :: "string \<Rightarrow> cell list" where
  "header input_name =
    (if input_name \<noteq> [] then [S ''name''] else [])
    @ map S [''target_contig'', ''stx_type'', ''operon'', ''identity'', ''target_start'',
             ''target_stop'', ''target_strand'', ''A_reference'', ''A_identity'', ''A_coverage'',
             ''B_reference'', ''B_identity'', ''B_coverage'']"

fun parseAll :: "bool \<Rightarrow> RawFields list \<Rightarrow> error + BlastAlignment list" where
  "parseAll qc_on [] = Inr []"
| "parseAll qc_on (f # fs) =
    (case BlastAlignment_of f of
       Inl e \<Rightarrow> Inl e
     | Inr al \<Rightarrow>
         if \<not> qc qc_on al then Inl QcAssertFailed
         else (case parseAll qc_on fs of Inl e \<Rightarrow> Inl e | Inr als \<Rightarrow> Inr (al # als)))"

text \<open>
  The three passes (lines 867-881) on the good hits, then lines 885-936: the final heap
  and the operons to report, in the order the last sort leaves them.
\<close>

definition assemble :: "BlastAlignment list \<Rightarrow> error + asm_state" where
  "assemble heap =
    (case goodBlasts2operons [0 ..< length heap] True True (heap, []) of
       Inl e \<Rightarrow> Inl e
     | Inr st1 \<Rightarrow>
        (let good = sort_by (\<lambda>p q. less_al (fst st1 ! p) (fst st1 ! q)) [0 ..< length heap] in
         case goodBlasts2operons good False True st1 of
           Inl e \<Rightarrow> Inl e
         | Inr st2 \<Rightarrow> goodBlasts2operons good False False st2))"

definition report ::
  "past_end \<Rightarrow> bool \<Rightarrow> string \<Rightarrow> asm_state \<Rightarrow> error + Operon list" where
  "report past qc_on input_name st =
    (let heap = fst st;
         operons = sort_by (\<lambda>a b. Operon_less (deref heap (fst a, Some (snd a)))
                                              (deref heap (fst b, Some (snd b)))) (snd st)
     in
     case goodOperonsLoop past qc_on input_name heap operons [] of
       Inl e \<Rightarrow> Inl e
     | Inr goodOperons \<Rightarrow>
        (let good = sort_by (\<lambda>p q. reportLess (heap ! p) (heap ! q))
                      (sort_by (\<lambda>p q. less_al (heap ! p) (heap ! q)) [0 ..< length heap]);
             fin = singlesLoop good 0 (heap, map (\<lambda>op. (fst op, Some (snd op))) goodOperons)
         in Inr (sort_by Operon_reportLess (map (deref (fst fin)) (snd fin)))))"

text \<open>
  \<^verbatim>\<open>shellBody\<close> from the alignment lines on (lines 777-941); \<open>qc_on\<close> is the global flag
  of the consistency checks, \<open>input_name\<close> the run-wide label and \<open>lines\<close> the fields of
  the lines that the aligner wrote; \<open>past\<close> is handed down to \<^verbatim>\<open>getStxType\<close>. Checking the input file and running the aligner
  (lines 659-731) come before and are left out. \<open>reportedOperons\<close> is the list
  \<^verbatim>\<open>goodOperons\<close> after the last sort, \<open>shellBody\<close> the header and the rows written.
\<close>

definition reportedOperons :: "past_end \<Rightarrow> bool \<Rightarrow> string \<Rightarrow> RawFields list \<Rightarrow> error + Operon list" where
  "reportedOperons past qc_on input_name lines =
    (case parseAll qc_on lines of
       Inl e \<Rightarrow> Inl e
     | Inr blastAls \<Rightarrow>
        (case findFrameshifts qc_on blastAls of
           Inl e \<Rightarrow> Inl e
         | Inr merged \<Rightarrow>
            (case goodBlasts merged of
               Inl e \<Rightarrow> Inl e
             | Inr heap \<Rightarrow>
                (case assemble heap of
                   Inl e \<Rightarrow> Inl e
                 | Inr st \<Rightarrow> report past qc_on input_name st))))"

definition shellBody :: "past_end \<Rightarrow> bool \<Rightarrow> string \<Rightarrow> RawFields list \<Rightarrow> error + cell list list" where
  "shellBody past qc_on input_name lines =
    (if CHR 0x09 \<in> set input_name then Inl RuntimeError
     else case reportedOperons past qc_on input_name lines of
       Inl e \<Rightarrow> Inl e
     | Inr goodOperons \<Rightarrow>
        (case saveAll past input_name goodOperons of
           Inl e \<Rightarrow> Inl e
         | Inr rows \<Rightarrow> Inr (header input_name # rows)))"

section \<open>Sort keys and the filter as a recursion on the sorted list\<close>

text \<open>
  The comparators compare key by key, so each is the lexicographic order of a tuple of
  keys. \<open>groupKey\<close> holds the four keys that the window of the hit filter asks to agree.
\<close>

definition groupKey :: "BlastAlignment \<Rightarrow> string \<times> bool \<times> string \<times> char" where
  "groupKey al = (targetName al, targetStrand al, stxClass al, subunit al)"

definition sameTypeKey ::
  "BlastAlignment \<Rightarrow> bool \<times> (string \<times> bool \<times> string \<times> char) \<times> 64 word \<times> 64 word \<times> string" where
  "sameTypeKey al = (reported al, groupKey al, targetStart al, getDiff al, refAccession al)"

definition reportKey ::
  "Operon \<Rightarrow> string \<times> 64 word \<times> 64 word \<times> bool \<times> string \<times> bool \<times> string" where
  "reportKey op =
    (targetName (al1 op), targetStart (al1 op), targetEnd (al1 op), \<not> targetStrand (al1 op),
     refAccession (al1 op), hasAl2 op, getRefAccession2 op)"

definition frameshiftKey :: "BlastAlignment \<Rightarrow> string \<times> bool \<times> string \<times> 64 word \<times> 64 word" where
  "frameshiftKey al =
    (targetName al, targetStrand al, refAccession al, targetStart al, targetEnd al)"

text \<open>
  What the filter keeps of the sorted hits \<open>xs\<close> that follow the hits \<open>ps\<close>: it stops
  at the first reported hit, and drops a hit that lies inside an earlier hit of its
  group whose diff-score is not worse.
\<close>

definition dominated :: "BlastAlignment list \<Rightarrow> BlastAlignment \<Rightarrow> bool" where
  "dominated ps al =
    list_ex (\<lambda>p. groupKey p = groupKey al \<and> insideEq al p \<and> getDiff p \<le> getDiff al) ps"

fun keep :: "BlastAlignment list \<Rightarrow> BlastAlignment list \<Rightarrow> BlastAlignment list" where
  "keep ps [] = []"
| "keep ps (x # xs) =
    (if reported x then []
     else (if dominated ps x then [] else [x]) @ keep (ps @ [x]) xs)"

section \<open>Invariant of the assembler\<close>

text \<open>
  The assembler changes the heap in the \<open>reported\<close> flags only; \<open>sameHits\<close> relates two
  heaps that agree up to these flags. \<open>acceptable\<close> is the test that lines 577-591 make
  of a pair, and \<open>asmInv\<close> says that every operon added since the list \<open>ops0\<close> passes
  it.
\<close>

definition sameHits :: "BlastAlignment list \<Rightarrow> BlastAlignment list \<Rightarrow> bool" where
  "sameHits heap heap' = (\<forall>q. \<exists>r. heap' ! q = (heap ! q) \<lparr>reported := r\<rparr>)"

definition acceptable :: "bool \<Rightarrow> BlastAlignment list \<Rightarrow> ptr \<times> ptr \<Rightarrow> bool" where
  "acceptable strong heap op =
    (gapOk strong (heap ! fst op) (heap ! snd op) \<and> identityOk strong (heap ! fst op) (heap ! snd op))"

definition asmInv :: "bool \<Rightarrow> BlastAlignment list \<Rightarrow> (ptr \<times> ptr) list \<Rightarrow> asm_state \<Rightarrow> bool" where
  "asmInv strong h0 ops0 st =
    (sameHits h0 (fst st) \<and> (\<exists>new. snd st = ops0 @ new \<and> (\<forall>op\<in>set new. acceptable strong h0 op)))"

section \<open>Concrete hits\<close>

text \<open>
  Two lines of a full-length class-1a operon on the forward strand: subunit A at
  target 1001-1060, subunit B at 1071-1130, each covering its 20-column reference and
  ending in the stop marker.
\<close>

definition rawA :: RawFields where
  "rawA =
    \<lparr> f_targetName = ''contig1'', f_sseqid = ''accA|stxA1a'',
      f_targetStart = 1001, f_targetEnd = 1060, f_targetLen = 5000,
      f_refStart = 1, f_refEnd = 20, f_refLen = 20,
      f_targetSeq = ''MKCILFKWVLCLLLGFSSV*'', f_refSeq = ''MKCILFKWVLCLLLGFSSV*'' \<rparr>"

definition rawB :: RawFields where
  "rawB =
    \<lparr> f_targetName = ''contig1'', f_sseqid = ''accB|stxB1a'',
      f_targetStart = 1071, f_targetEnd = 1130, f_targetLen = 5000,
      f_refStart = 1, f_refEnd = 20, f_refLen = 20,
      f_targetSeq = ''MKKMFMAVLFALASVNAMA*'', f_refSeq = ''MKKMFMAVLFALASVNAMA*'' \<rparr>"

text \<open>The hits the constructor makes of them.\<close>

definition hitA :: BlastAlignment where
  "hitA =
    \<lparr> length_al = 20, nident = 20, refStart = 0, refEnd = 20, refLen = 20,
      targetStart = 1000, targetEnd = 1060, targetLen = 5000,
      stopCodon = False, frameshift = False, targetName = ''contig1'',
      targetSeq = ''MKCILFKWVLCLLLGFSSV*'', targetStrand = True,
      refAccession = ''accA'', refSeq = ''MKCILFKWVLCLLLGFSSV*'',
      stxType = ''1a'', stxClass = ''1a'', stxSuperClass = ''1'',
      subunit = CHR ''A'', reported = False \<rparr>"

definition hitB :: BlastAlignment where
  "hitB =
    \<lparr> length_al = 20, nident = 20, refStart = 0, refEnd = 20, refLen = 20,
      targetStart = 1070, targetEnd = 1130, targetLen = 5000,
      stopCodon = False, frameshift = False, targetName = ''contig1'',
      targetSeq = ''MKKMFMAVLFALASVNAMA*'', targetStrand = True,
      refAccession = ''accB'', refSeq = ''MKKMFMAVLFALASVNAMA*'',
      stxType = ''1a'', stxClass = ''1a'', stxSuperClass = ''1'',
      subunit = CHR ''B'', reported = False \<rparr>"

text \<open>Subunit A with one mismatch in the 20 columns: identity 0.95.\<close>

definition novelA :: BlastAlignment where
  "novelA = hitA \<lparr> nident := 19, targetSeq := ''MKCILFKWVLCLLLGFSSA*'', reported := True \<rparr>"

definition novelOp :: Operon where
  "novelOp = \<lparr> al1 = novelA, al2 = Some (hitB \<lparr> reported := True \<rparr>) \<rparr>"

definition completeOp :: Operon where
  "completeOp = \<lparr> al1 = hitA \<lparr> reported := True \<rparr>, al2 = Some (hitB \<lparr> reported := True \<rparr>) \<rparr>"

text \<open>
  A class-2 pair: subunit A aligned to reference columns 313-319 (of 320) with F and K
  at the two ends, subunit B aligned to reference column 35 (of 90) with D.
\<close>

definition class2A :: BlastAlignment where
  "class2A =
    \<lparr> length_al = 7, nident = 7, refStart = 312, refEnd = 319, refLen = 320,
      targetStart = 1000, targetEnd = 1021, targetLen = 5000,
      stopCodon = False, frameshift = False, targetName = ''contig1'',
      targetSeq = ''FMMMMMK'', targetStrand = True,
      refAccession = ''accA2'', refSeq = ''FMMMMMK'',
      stxType = ''2a'', stxClass = ''2'', stxSuperClass = ''2'',
      subunit = CHR ''A'', reported = True \<rparr>"

definition class2B :: BlastAlignment where
  "class2B =
    \<lparr> length_al = 1, nident = 1, refStart = 34, refEnd = 35, refLen = 90,
      targetStart = 1030, targetEnd = 1033, targetLen = 5000,
      stopCodon = False, frameshift = False, targetName = ''contig1'',
      targetSeq = ''D'', targetStrand = True,
      refAccession = ''accB2'', refSeq = ''D'',
      stxType = ''2a'', stxClass = ''2'', stxSuperClass = ''2'',
      subunit = CHR ''B'', reported = True \<rparr>"

definition class2Op :: Operon where
  "class2Op = \<lparr> al1 = class2A, al2 = Some class2B \<rparr>"

text \<open>A line whose reference start equals its reference end; all else as in \<open>rawA\<close>.\<close>

definition rawBadRef :: RawFields where
  "rawBadRef = rawA \<lparr> f_refStart := 20, f_refEnd := 20 \<rparr>"

text \<open>
  A line of four aligned columns whose reference row has three gaps, although the
  reference range 1-4 spans four residues.
\<close>

definition rawGapped :: RawFields where
  "rawGapped =
    \<lparr> f_targetName = ''contig1'', f_sseqid = ''accA2|stxA2a'',
      f_targetStart = 1001, f_targetEnd = 1012, f_targetLen = 5000,
      f_refStart = 1, f_refEnd = 4, f_refLen = 320,
      f_targetSeq = ''ACDE'', f_refSeq = ''A---'' \<rparr>"

definition gappedHit :: BlastAlignment where
  "gappedHit =
    \<lparr> length_al = 4, nident = 1, refStart = 0, refEnd = 4, refLen = 320,
      targetStart = 1000, targetEnd = 1012, targetLen = 5000,
      stopCodon = False, frameshift = False, targetName = ''contig1'',
      targetSeq = ''ACDE'', targetStrand = True,
      refAccession = ''accA2'', refSeq = ''A---'',
      stxType = ''2a'', stxClass = ''2'', stxSuperClass = ''2'',
      subunit = CHR ''A'', reported = False \<rparr>"

text \<open>
  Two fragments of one subunit-A gene in different reading frames: reference columns
  1-10 at target 1-30 and reference columns 11-20 at target 30-59.
\<close>

definition fsPrev :: BlastAlignment where
  "fsPrev =
    \<lparr> length_al = 10, nident = 10, refStart = 0, refEnd = 10, refLen = 320,
      targetStart = 0, targetEnd = 30, targetLen = 5000,
      stopCodon = False, frameshift = False, targetName = ''contig1'',
      targetSeq = ''MKCILFKWVL'', targetStrand = True,
      refAccession = ''accA2'', refSeq = ''MKCILFKWVL'',
      stxType = ''2a'', stxClass = ''2'', stxSuperClass = ''2'',
      subunit = CHR ''A'', reported = False \<rparr>"

definition fsAl :: BlastAlignment where
  "fsAl = fsPrev \<lparr> refStart := 10, refEnd := 20, targetStart := 29, targetEnd := 59,
                   targetSeq := ''CLLLGFSSVS'', refSeq := ''CLLLGFSSVS'' \<rparr>"

definition fsMerged :: BlastAlignment where
  "fsMerged = fsAl \<lparr> targetStart := 0, refStart := 0, length_al := 20, nident := 20,
                     frameshift := True \<rparr>"

text \<open>
  Two hits of one reference in different frames, the later one lying inside the
  earlier one: target 1-30 and target 11-25.
\<close>

definition nestedAl :: BlastAlignment where
  "nestedAl = fsPrev \<lparr> length_al := 5, nident := 5, refStart := 3, refEnd := 8,
                       targetStart := 10, targetEnd := 25,
                       targetSeq := ''ILFKW'', refSeq := ''ILFKW'' \<rparr>"

definition nestedMerged :: BlastAlignment where
  "nestedMerged = nestedAl \<lparr> targetStart := 0, refStart := 0, length_al := 15, nident := 15,
                             frameshift := True \<rparr>"

text \<open>Subunit B starting where subunit A ends: target 1061-1120, 0-based from 1060.\<close>

definition rawAdjB :: RawFields where
  "rawAdjB = rawB \<lparr> f_targetStart := 1061, f_targetEnd := 1120 \<rparr>"

definition adjB :: BlastAlignment where
  "adjB = hitB \<lparr> targetStart := 1060, targetEnd := 1120 \<rparr>"

text \<open>
  Three lines on the reverse strand of one contig: subunit B at target 1001-1060 and
  two hits of the same subunit-A reference, at target 1071-1130 (20 columns, all
  identical) and at target 1074-1193 (40 columns, one mismatch), in the same frame.
\<close>

definition rawRevB :: RawFields where
  "rawRevB = rawB \<lparr> f_targetStart := 1060, f_targetEnd := 1001 \<rparr>"

definition rawRevA :: RawFields where
  "rawRevA = rawA \<lparr> f_targetStart := 1130, f_targetEnd := 1071, f_refLen := 60 \<rparr>"

definition rawRevA' :: RawFields where
  "rawRevA' =
    rawA \<lparr> f_targetStart := 1193, f_targetEnd := 1074, f_refEnd := 40, f_refLen := 60,
           f_targetSeq := ''MKCILFKWVLCLLLGFSSVSYSREFTIDFSTQQSYVSSLA'',
           f_refSeq := ''MKCILFKWVLCLLLGFSSVSYSREFTIDFSTQQSYVSSLN'' \<rparr>"

definition revB :: BlastAlignment where
  "revB = hitB \<lparr> targetStart := 1000, targetEnd := 1060, targetStrand := False,
                 reported := True \<rparr>"

definition revA :: BlastAlignment where
  "revA = hitA \<lparr> targetStart := 1070, targetEnd := 1130, targetStrand := False, refLen := 60,
                 reported := True \<rparr>"

definition revA' :: BlastAlignment where
  "revA' = hitA \<lparr> length_al := 40, nident := 39, refEnd := 40, refLen := 60,
                  targetStart := 1073, targetEnd := 1193, targetStrand := False,
                  targetSeq := ''MKCILFKWVLCLLLGFSSVSYSREFTIDFSTQQSYVSSLA'',
                  refSeq := ''MKCILFKWVLCLLLGFSSVSYSREFTIDFSTQQSYVSSLN'',
                  reported := True \<rparr>"

definition tieOp1 :: Operon where
  "tieOp1 = \<lparr> al1 = revB, al2 = Some revA \<rparr>"

definition tieOp2 :: Operon where
  "tieOp2 = \<lparr> al1 = revB, al2 = Some revA' \<rparr>"

text \<open>
  A second subunit-A hit of the same reference inside \<open>hitA\<close>: reference columns 6-15 at
  target 1016-1045, with diff-score 10.
\<close>

definition innerA :: BlastAlignment where
  "innerA = hitA \<lparr> length_al := 10, nident := 10, refStart := 5, refEnd := 15,
                   targetStart := 1015, targetEnd := 1045,
                   targetSeq := ''FKWVLCLLLG'', refSeq := ''FKWVLCLLLG'' \<rparr>"

text \<open>The hit \<open>novelA\<close> before any stage has marked it.\<close>

definition lowA :: BlastAlignment where
  "lowA = novelA \<lparr> reported := False \<rparr>"

text \<open>
  Two values of what is found past the end of a string: the null byte everywhere, and
  \<open>F\<close> at index 312 with \<open>K\<close> everywhere else.
\<close>

definition zeroPast :: past_end where
  "zeroPast s i = CHR 0x00"

definition fkPast :: past_end where
  "fkPast s i = (if i = 312 then CHR ''F'' else CHR ''K'')"

text \<open>
  The lines of the two fragments \<open>fsPrev\<close> and \<open>fsAl\<close>, and a line of subunit B of class
  2 at target 66-71, aligned to reference columns 35-36 (of 90) with \<open>D\<close> at column 35.
  \<open>fsOp\<close> is the operon of the merged fragments and that subunit B.
\<close>

definition rawFsPrev :: RawFields where
  "rawFsPrev =
    \<lparr> f_targetName = ''contig1'', f_sseqid = ''accA2|stxA2a'',
      f_targetStart = 1, f_targetEnd = 30, f_targetLen = 5000,
      f_refStart = 1, f_refEnd = 10, f_refLen = 320,
      f_targetSeq = ''MKCILFKWVL'', f_refSeq = ''MKCILFKWVL'' \<rparr>"

definition rawFsAl :: RawFields where
  "rawFsAl = rawFsPrev \<lparr> f_targetStart := 30, f_targetEnd := 59, f_refStart := 11, f_refEnd := 20,
                         f_targetSeq := ''CLLLGFSSVS'', f_refSeq := ''CLLLGFSSVS'' \<rparr>"

definition rawFsB :: RawFields where
  "rawFsB =
    \<lparr> f_targetName = ''contig1'', f_sseqid = ''accB2|stxB2a'',
      f_targetStart = 66, f_targetEnd = 71, f_targetLen = 5000,
      f_refStart = 35, f_refEnd = 36, f_refLen = 90,
      f_targetSeq = ''DM'', f_refSeq = ''DM'' \<rparr>"

definition fsB :: BlastAlignment where
  "fsB =
    \<lparr> length_al = 2, nident = 2, refStart = 34, refEnd = 36, refLen = 90,
      targetStart = 65, targetEnd = 71, targetLen = 5000,
      stopCodon = False, frameshift = False, targetName = ''contig1'',
      targetSeq = ''DM'', targetStrand = True,
      refAccession = ''accB2'', refSeq = ''DM'',
      stxType = ''2a'', stxClass = ''2'', stxSuperClass = ''2'',
      subunit = CHR ''B'', reported = False \<rparr>"

definition fsOp :: Operon where
  "fsOp = \<lparr> al1 = fsMerged \<lparr> reported := True \<rparr>, al2 = Some (fsB \<lparr> reported := True \<rparr>) \<rparr>"

text \<open>
  A line of subunit A of class 2 whose reference has 321 residues, aligned to reference
  columns 313-319 at target 1001-1021, and a line of subunit B at target 1031-1036.
\<close>

definition rawLongA :: RawFields where
  "rawLongA =
    \<lparr> f_targetName = ''contig1'', f_sseqid = ''accA2|stxA2a'',
      f_targetStart = 1001, f_targetEnd = 1021, f_targetLen = 5000,
      f_refStart = 313, f_refEnd = 319, f_refLen = 321,
      f_targetSeq = ''FMMMMMK'', f_refSeq = ''FMMMMMK'' \<rparr>"

definition rawNearB :: RawFields where
  "rawNearB = rawFsB \<lparr> f_targetStart := 1031, f_targetEnd := 1036 \<rparr>"

definition longOp :: Operon where
  "longOp = \<lparr> al1 = class2A \<lparr> refLen := 321 \<rparr>,
              al2 = Some (fsB \<lparr> targetStart := 1030, targetEnd := 1036, reported := True \<rparr>) \<rparr>"

text \<open>
  The class-2 pair \<open>class2A\<close> and a subunit B whose residue at reference column 35 is
  \<open>M\<close>: none of the three patterns holds.
\<close>

definition plainOp :: Operon where
  "plainOp = \<lparr> al1 = class2A,
               al2 = Some (fsB \<lparr> targetStart := 1030, targetEnd := 1036, nident := 1,
                                targetSeq := ''MM'', reported := True \<rparr>) \<rparr>"

text \<open>
  Two alignments of one stretch of the contig, target 1001-1060, to the whole of one
  reference of 20 residues: without gaps and with two mismatches, and with one gap in
  each row. Both have diff-score 2.
\<close>

definition rawTie1 :: RawFields where
  "rawTie1 = rawA \<lparr> f_targetSeq := ''MKCILFKWVCLLLLGFSSV*'' \<rparr>"

definition rawTie2 :: RawFields where
  "rawTie2 = rawA \<lparr> f_targetSeq := ''MKCILFKWV-CLLLLGFSSV*'',
                     f_refSeq := ''MKCILFKWVLCLLL-GFSSV*'' \<rparr>"

text \<open>The lines \<open>rawA\<close> and \<open>rawB\<close> on another contig, and the operons of the four lines.\<close>

definition rawA0 :: RawFields where
  "rawA0 = rawA \<lparr> f_targetName := ''contig0'' \<rparr>"

definition rawB0 :: RawFields where
  "rawB0 = rawB \<lparr> f_targetName := ''contig0'' \<rparr>"

definition completeOp0 :: Operon where
  "completeOp0 = \<lparr> al1 = hitA \<lparr> targetName := ''contig0'', reported := True \<rparr>,
                    al2 = Some (hitB \<lparr> targetName := ''contig0'', reported := True \<rparr>) \<rparr>"

section \<open>The concrete hits are hits\<close>

lemma constructed_hits:
  "BlastAlignment_of rawB = Inr hitB"
  "BlastAlignment_of rawAdjB = Inr adjB"
  "BlastAlignment_of rawRevB = Inr (revB \<lparr>reported := False\<rparr>)"
  "BlastAlignment_of rawRevA = Inr (revA \<lparr>reported := False\<rparr>)"
  "BlastAlignment_of rawRevA' = Inr (revA' \<lparr>reported := False\<rparr>)"
  by code_simp+

lemma checked_hits:
  "qc True hitA" "qc True hitB" "qc True adjB" "qc True lowA" "qc True innerA"
  "qc True class2A" "qc True class2B" "qc True fsPrev" "qc True fsAl" "qc True nestedAl"
  "qc True revA" "qc True revA'" "qc True revB"
  by code_simp+

section \<open>Constants\<close>

text \<open>
  C5. The claim: the slack of the suppression window is strictly larger than the
  intergenic gap threshold of operon pairing. In the source the slack is 30 and the gap
  threshold is 36 in the strong passes and 72 in the weak pass: the slack is strictly
  smaller than the gap threshold of every pass.
\<close>

theorem slack_lt_intergenic_max:
  "slack < intergenic_max * 1 \<and> slack < intergenic_max * 2"
  by (simp add: slack_def intergenic_max_def)

theorem slack_gt_intergenic_max_counterexample:
  "\<not> intergenic_max < slack"
  by (simp add: slack_def intergenic_max_def)

section \<open>Type and status of a paired operon\<close>

lemmas render_defs =
  getA_def getB_def partial_def getRelCoverage_def getAbsCoverage_def getExtended_def
  truncated_def novel_def Operon_getIdentity_def getIdentity_def ddiv_def
  stxClass2identity_def stxClass2identity_table_def standard_def stxS_def noString_def

text \<open>
  C1, as the source has it. In the row of a paired operon the type cell holds the
  prefix \<open>stx\<close> and the resolved type, cut to its first character exactly when the
  status cell is not \<open>COMPLETE\<close> and the resolved type has at least two characters. A
  \<open>COMPLETE_NOVEL\<close> operon is therefore cut like every other status but \<open>COMPLETE\<close>.
\<close>

theorem saveTsvOut_stxType_cut:
  assumes "al2 op = Some a2"
    and "Operon_saveTsvOut past input_name verboseP op = Inr row"
  shows "\<exists>ty. getStxType past verboseP op = Inr ty
      \<and> row ! (if input_name = [] then 2 else 3) = S (operonType (al1 op) a2 ty)
      \<and> row ! (if input_name = [] then 1 else 2) =
          S (stxS @ (if operonType (al1 op) a2 ty \<noteq> ''COMPLETE'' \<and> 2 \<le> length ty
                     then take 1 ty else ty))"
  using assms
  by (auto simp: Operon_saveTsvOut_def reportedStxType_def standard_def split: sum.splits)

theorem saveTsvOut_stxType_cut_witness:
  "\<exists>ty. getStxType zeroPast False completeOp = Inr ty
      \<and> S ''COMPLETE'' = S (operonType (al1 completeOp) (hitB \<lparr>reported := True\<rparr>) ty)
      \<and> S ''stx1a'' =
          S (stxS @ (if operonType (al1 completeOp) (hitB \<lparr>reported := True\<rparr>) ty \<noteq> ''COMPLETE''
                        \<and> 2 \<le> length ty
                     then take 1 ty else ty))"
proof -
  have h1: "al2 completeOp = Some (hitB \<lparr>reported := True\<rparr>)"
    by (simp add: completeOp_def)
  have h2: "Operon_saveTsvOut zeroPast [] False completeOp =
      Inr [S ''contig1'', S ''stx1a'', S ''COMPLETE'', D (Fin 100), N 1001, N 1130,
           C CHR ''+'', S ''accA'', D (Fin 100), D (Fin 100), S ''accB'', D (Fin 100),
           D (Fin 100)]"
    by (simp add: Operon_saveTsvOut_def getStxType_def completeOp_def hitA_def hitB_def
        reportedStxType_def operonType_def render_defs)
  show ?thesis
    using saveTsvOut_stxType_cut [OF h1 h2] by simp
qed

text \<open>
  C1 as stated fails: the operon of \<open>novelA\<close> and \<open>hitB\<close> has identity 39/40, below the
  0.983 of class 1a; its status is \<open>COMPLETE_NOVEL\<close>, its resolved type is \<open>1a\<close>, and
  the row shows \<open>stx1\<close>.
\<close>

theorem complete_novel_keeps_type_counterexample:
  "getStxType zeroPast False novelOp = Inr ''1a''
   \<and> Operon_saveTsvOut zeroPast [] False novelOp =
       Inr [S ''contig1'', S ''stx1'', S ''COMPLETE_NOVEL'', D (Fin (195 / 2)), N 1001, N 1130,
            C CHR ''+'', S ''accA'', D (Fin 95), D (Fin 100), S ''accB'', D (Fin 100),
            D (Fin 100)]"
  by (simp add: Operon_saveTsvOut_def getStxType_def novelOp_def novelA_def hitA_def hitB_def
      reportedStxType_def operonType_def render_defs)

text \<open>
  C2, as the source has it. Take a paired operon whose hits both have class 2 and whose
  two projections are built (\<^verbatim>\<open>refMap (320)\<close> of subunit A is \<open>a\<close>, \<^verbatim>\<open>refMap (90)\<close> of
  subunit B is \<open>b\<close>), and let the indexes that the source reads lie in them: index 312
  of \<open>a\<close> always, index 318 of \<open>a\<close> where the character at 312 is \<open>F\<close> or \<open>S\<close>, index 34
  of \<open>b\<close> where moreover the character at 318 is \<open>K\<close> or \<open>E\<close>, and all three with
  \<open>verboseP\<close>. Then the resolved type is decided by these three characters, whatever
  lies past the end of the strings: \<open>2a\<close>, \<open>2c\<close>, \<open>2d\<close> under the three conditions of
  the claim; in every other case the bare \<open>2\<close> in the report (\<open>verboseP\<close> is false
  there) and \<open>2\<close>, a blank and the three characters with \<open>verboseP\<close>.
\<close>

theorem getStxType_class2:
  assumes "al2 op = Some a2"
    and "stxClass (al1 op) = ''2''" and "stxClass a2 = ''2''"
    and "refMap (getA (al1 op) a2) 320 = Inr a"
    and "refMap (getB (al1 op) a2) 90 = Inr b"
    and "strAt a 312 = Some a313"
    and "verboseP \<or> a313 = CHR ''F'' \<or> a313 = CHR ''S'' \<longrightarrow> strAt a 318 = Some a319"
    and "verboseP \<or> (a313 = CHR ''F'' \<or> a313 = CHR ''S'') \<and> (a319 = CHR ''K'' \<or> a319 = CHR ''E'')
          \<longrightarrow> strAt b 34 = Some b35"
  shows "\<exists>ty. getStxType past verboseP op = Inr ty
    \<and> (ty = ''2a'') = ((a313 = CHR ''F'' \<or> a313 = CHR ''S'')
                        \<and> (a319 = CHR ''K'' \<or> a319 = CHR ''E'') \<and> b35 = CHR ''D'')
    \<and> (ty = ''2c'') = (a313 = CHR ''F'' \<and> (a319 = CHR ''K'' \<or> a319 = CHR ''E'')
                        \<and> b35 = CHR ''N'')
    \<and> (ty = ''2d'') = (a313 = CHR ''S'' \<and> a319 = CHR ''E'' \<and> b35 = CHR ''N'')
    \<and> (ty \<noteq> ''2a'' \<and> ty \<noteq> ''2c'' \<and> ty \<noteq> ''2d''
         \<longrightarrow> ty = (if verboseP then ''2 '' @ [a313, a319, b35] else ''2''))"
proof -
  have ty: "getStxType past verboseP op
      = Inr (class2Type verboseP (charAt past a) (charAt past b))"
    using assms(1-5) by (simp add: getStxType_def)
  have c1: "charAt past a 312 = a313"
    using assms(6) by (simp add: charAt_def)
  show ?thesis
  proof (cases "verboseP \<or> a313 = CHR ''F'' \<or> a313 = CHR ''S''")
    case False
    then show ?thesis
      unfolding ty class2Type_def c1 by simp
  next
    case rd2: True
    then have c2: "charAt past a 318 = a319"
      using assms(7) by (simp add: charAt_def)
    show ?thesis
    proof (cases "verboseP \<or> (a313 = CHR ''F'' \<or> a313 = CHR ''S'')
                    \<and> (a319 = CHR ''K'' \<or> a319 = CHR ''E'')")
      case False
      then have "\<not> verboseP" "a319 \<noteq> CHR ''K''" "a319 \<noteq> CHR ''E''"
        using rd2 by auto
      then show ?thesis
        unfolding ty class2Type_def c1 c2 by simp
    next
      case True
      then have c3: "charAt past b 34 = b35"
        using assms(8) by (simp add: charAt_def)
      show ?thesis
        unfolding ty class2Type_def c1 c2 c3 by auto
    qed
  qed
qed

theorem getStxType_class2_witness:
  "getStxType zeroPast False class2Op = Inr ''2a''
   \<and> getStxType zeroPast True plainOp = Inr ''2 FKM''"
proof -
  let ?a = "replicate 312 CHR ''-'' @ ''FMMMMMK-''"
  let ?b = "replicate 34 CHR ''-'' @ ''D'' @ replicate 55 CHR ''-''"
  let ?b' = "replicate 34 CHR ''-'' @ ''MM'' @ replicate 54 CHR ''-''"
  let ?B' = "fsB \<lparr> targetStart := 1030, targetEnd := 1036, nident := 1, targetSeq := ''MM'',
                   reported := True \<rparr>"
  have h1: "al2 class2Op = Some class2B" by (simp add: class2Op_def)
  have h2: "stxClass (al1 class2Op) = ''2''" by (simp add: class2Op_def class2A_def)
  have h3: "stxClass class2B = ''2''" by (simp add: class2B_def)
  have h4: "refMap (getA (al1 class2Op) class2B) 320 = Inr ?a"
    by (simp add: refMap_def getA_def class2Op_def class2A_def strAt_def)
  have h5: "refMap (getB (al1 class2Op) class2B) 90 = Inr ?b"
    by (simp add: refMap_def getB_def class2Op_def class2A_def class2B_def strAt_def)
  have h6: "strAt ?a 312 = Some CHR ''F''"
    by (simp add: strAt_def nth_append)
  have h7: "False \<or> CHR ''F'' = CHR ''F'' \<or> CHR ''F'' = CHR ''S'' \<longrightarrow> strAt ?a 318 = Some CHR ''K''"
    by (simp add: strAt_def nth_append)
  have h8: "False \<or> (CHR ''F'' = CHR ''F'' \<or> CHR ''F'' = CHR ''S'')
        \<and> (CHR ''K'' = CHR ''K'' \<or> CHR ''K'' = CHR ''E'') \<longrightarrow> strAt ?b 34 = Some CHR ''D''"
    by (simp add: strAt_def nth_append)
  have first: "getStxType zeroPast False class2Op = Inr ''2a''"
    using getStxType_class2 [OF h1 h2 h3 h4 h5 h6 h7 h8, of zeroPast] by auto
  have g1: "al2 plainOp = Some ?B'" by (simp add: plainOp_def)
  have g2: "stxClass (al1 plainOp) = ''2''" by (simp add: plainOp_def class2A_def)
  have g3: "stxClass ?B' = ''2''" by (simp add: fsB_def)
  have g4: "refMap (getA (al1 plainOp) ?B') 320 = Inr ?a"
    by (simp add: refMap_def getA_def plainOp_def class2A_def strAt_def)
  have g5: "refMap (getB (al1 plainOp) ?B') 90 = Inr ?b'"
    by (simp add: refMap_def getB_def plainOp_def class2A_def fsB_def strAt_def)
  have g7: "True \<or> CHR ''F'' = CHR ''F'' \<or> CHR ''F'' = CHR ''S'' \<longrightarrow> strAt ?a 318 = Some CHR ''K''"
    by (simp add: strAt_def nth_append)
  have g8: "True \<or> (CHR ''F'' = CHR ''F'' \<or> CHR ''F'' = CHR ''S'')
        \<and> (CHR ''K'' = CHR ''K'' \<or> CHR ''K'' = CHR ''E'') \<longrightarrow> strAt ?b' 34 = Some CHR ''M''"
    by (simp add: strAt_def nth_append)
  have second: "getStxType zeroPast True plainOp = Inr ''2 FKM''"
    using getStxType_class2 [OF g1 g2 g3 g4 g5 h6 g7 g8, of zeroPast] by auto
  show ?thesis
    using first second by simp
qed

text \<open>
  C2 as stated fails in three ways. The lines \<open>rawFsPrev\<close>, \<open>rawFsAl\<close>, \<open>rawFsB\<close> yield
  the operon \<open>fsOp\<close> of a frameshift-merged subunit A and a subunit B, both of class 2;
  the projection of subunit A has 310 characters, so index 312 is not in it, and the
  resolved type follows what is found past its end: \<open>2\<close> with \<open>zeroPast\<close>, \<open>2a\<close> with
  \<open>fkPast\<close>. The lines \<open>rawLongA\<close>, \<open>rawNearB\<close> yield a class-2 pair whose subunit-A
  reference has 321 residues: \<^verbatim>\<open>refMap\<close> fails its \<^verbatim>\<open>QC_ASSERT\<close> and the run ends without a
  type. With \<open>verboseP\<close> the operon \<open>plainOp\<close>, which has none of the three patterns,
  has the type \<open>2 FKM\<close>.
\<close>

theorem getStxType_class2_counterexample:
  "reportedOperons zeroPast True [] [rawFsPrev, rawFsAl, rawFsB] = Inr [fsOp]
   \<and> stxClass (al1 fsOp) = ''2'' \<and> map_option stxClass (al2 fsOp) = Some ''2''
   \<and> refMap (getA (al1 fsOp) (fsB \<lparr>reported := True\<rparr>)) 320
       = Inr (''CLLLGFSSVS'' @ replicate 300 CHR ''-'')
   \<and> strAt (''CLLLGFSSVS'' @ replicate 300 CHR ''-'') 312 = None
   \<and> getStxType zeroPast False fsOp = Inr ''2''
   \<and> getStxType fkPast False fsOp = Inr ''2a''
   \<and> BlastAlignment_of rawLongA = Inr (class2A \<lparr>refLen := 321, reported := False\<rparr>)
   \<and> shellBody zeroPast False [] [rawLongA, rawNearB] = Inl QcAssertFailed
   \<and> getStxType zeroPast False longOp = Inl QcAssertFailed
   \<and> getStxType zeroPast True plainOp = Inr ''2 FKM''"
proof (intro conjI)
  show "reportedOperons zeroPast True [] [rawFsPrev, rawFsAl, rawFsB] = Inr [fsOp]"
    by code_simp
  show "stxClass (al1 fsOp) = ''2''"
    by code_simp
  show "map_option stxClass (al2 fsOp) = Some ''2''"
    by code_simp
  show "refMap (getA (al1 fsOp) (fsB \<lparr>reported := True\<rparr>)) 320
       = Inr (''CLLLGFSSVS'' @ replicate 300 CHR ''-'')"
    by code_simp
  show "strAt (''CLLLGFSSVS'' @ replicate 300 CHR ''-'') 312 = None"
    by (simp add: strAt_def)
  show "getStxType zeroPast False fsOp = Inr ''2''"
    by code_simp
  show "getStxType fkPast False fsOp = Inr ''2a''"
    by code_simp
  show "BlastAlignment_of rawLongA = Inr (class2A \<lparr>refLen := 321, reported := False\<rparr>)"
    by code_simp
  show "shellBody zeroPast False [] [rawLongA, rawNearB] = Inl QcAssertFailed"
    by code_simp
  show "getStxType zeroPast False longOp = Inl QcAssertFailed"
    by code_simp
  show "getStxType zeroPast True plainOp = Inr ''2 FKM''"
    by code_simp
qed

section \<open>Parsing a line\<close>

text \<open>
  C8, as the source has it. The constructor fails, always with a failed
  \<^verbatim>\<open>QC_ASSERT\<close>, exactly when the target sequence is empty, the family code (the part of
  the subject id after its last bar) does not have six characters or does not begin
  with \<open>stx\<close>, the two aligned sequences differ in length, the reference start is not
  below the reference end, the target start equals the target end, or the reference
  start or the lower target coordinate is 0. In every other case it yields a hit.
\<close>

theorem BlastAlignment_of_fails_iff:
  "(BlastAlignment_of f = Inl QcAssertFailed) =
     (f_targetSeq f = [] \<or> length (fst (rfindSplit (f_sseqid f) CHR ''|'')) \<noteq> 6
      \<or> \<not> isLeft (fst (rfindSplit (f_sseqid f) CHR ''|'')) stxS
      \<or> length (f_targetSeq f) \<noteq> length (f_refSeq f)
      \<or> f_refEnd f \<le> f_refStart f \<or> f_targetStart f = f_targetEnd f
      \<or> f_refStart f = 0 \<or> f_targetStart f = 0 \<or> f_targetEnd f = 0)
   \<and> (\<exists>al. BlastAlignment_of f = Inr al) = (BlastAlignment_of f \<noteq> Inl QcAssertFailed)"
proof -
  have one: "\<And>w :: 64 word. (\<not> 1 \<le> w) = (w = 0)"
    by (simp add: word_le_nat_alt unat_eq_0 not_le less_Suc0 flip: One_nat_def)
  show ?thesis
    by (auto simp: BlastAlignment_of_def Let_def one not_less)
qed

theorem BlastAlignment_of_fails_iff_witness:
  "BlastAlignment_of rawA = Inr hitA"
proof -
  have "BlastAlignment_of rawA \<noteq> Inl QcAssertFailed"
    using BlastAlignment_of_fails_iff [of rawA]
    by (simp add: rawA_def rfindSplit_def isLeft_def stxS_def word_le_nat_alt)
  then show ?thesis
    by (simp add: BlastAlignment_of_def rawA_def hitA_def rfindSplit_def isLeft_def stxS_def
        Let_def foldClass_def findStopCodon_def)
qed

text \<open>
  C8 as stated fails: \<open>rawBadRef\<close> has the family code \<open>stxA1a\<close>, aligned sequences of
  equal length, distinct target start and end and positive lengths, and the
  constructor rejects it, for its reference start is not below its reference end.
\<close>

theorem parse_fails_outside_list_counterexample:
  "BlastAlignment_of rawBadRef = Inl QcAssertFailed
   \<and> fst (rfindSplit (f_sseqid rawBadRef) CHR ''|'') = ''stxA1a''
   \<and> length (f_targetSeq rawBadRef) = length (f_refSeq rawBadRef)
   \<and> f_targetStart rawBadRef \<noteq> f_targetEnd rawBadRef
   \<and> 0 < length (f_targetSeq rawBadRef)
   \<and> 0 < f_targetLen rawBadRef \<and> 0 < f_refLen rawBadRef"
  by (simp add: BlastAlignment_of_def rawBadRef_def rawA_def rfindSplit_def isLeft_def stxS_def
      Let_def)

section \<open>Frameshift merger\<close>

text \<open>
  C7, as the source has it. When the scan merges the hit \<open>al\<close> with its predecessor
  \<open>p\<close>, the earlier hit is put out marked reported and the scan goes on with the merged
  hit: its target start is the earlier hit's and its target end its own; on the
  forward strand its reference start, on the reverse strand its reference end, is the
  earlier hit's; length and identical count are the sums (of 64-bit words); the stop
  codon flag is the disjunction, and it is frameshifted. The new target range is the
  union of the two ranges when the later hit starts no later than the earlier one
  ends and ends no earlier than it.
\<close>

theorem frameshiftScan_merge:
  assumes "mergeCond al p"
    and "frameshiftScan qc_on (Some p) (al # als) = Inr out"
  shows "\<exists>al' r. merge al p = Inr al' \<and> frameshiftScan qc_on (Some al') als = Inr r
      \<and> out = p\<lparr>reported := True\<rparr> # r
      \<and> targetStart al' = targetStart p \<and> targetEnd al' = targetEnd al
      \<and> refStart al' = (if targetStrand al then refStart p else refStart al)
      \<and> refEnd al' = (if targetStrand al then refEnd al else refEnd p)
      \<and> length_al al' = length_al al + length_al p
      \<and> nident al' = nident al + nident p
      \<and> stopCodon al' = (stopCodon al \<or> stopCodon p)
      \<and> frameshift al'
      \<and> (if targetStart al \<le> targetEnd p \<and> targetEnd p \<le> targetEnd al
          then {targetStart al' ..< targetEnd al'}
                 = {targetStart p ..< targetEnd p} \<union> {targetStart al ..< targetEnd al}
          else True)"
proof -
  from assms obtain al' r where m: "merge al p = Inr al'"
    and r: "frameshiftScan qc_on (Some al') als = Inr r"
    and out: "out = p\<lparr>reported := True\<rparr> # r"
    by (auto split: sum.splits if_splits)
  have lt: "targetStart p < targetStart al"
    using assms(1) by (simp add: mergeCond_def)
  from m have al': "al' = al
       \<lparr> targetStart := targetStart p,
         refStart := (if targetStrand al then refStart p else refStart al),
         refEnd := (if targetStrand al then refEnd al else refEnd p),
         length_al := length_al al + length_al p,
         nident := nident al + nident p,
         stopCodon := (if stopCodon p then True else stopCodon al),
         frameshift := True \<rparr>"
    by (auto simp: merge_def split: if_splits)
  have u: "targetStart al \<le> targetEnd p \<Longrightarrow> targetEnd p \<le> targetEnd al \<Longrightarrow>
      {targetStart p ..< targetEnd al}
        = {targetStart p ..< targetEnd p} \<union> {targetStart al ..< targetEnd al}"
    using lt by auto
  show ?thesis
    using m r out u by (auto simp: al')
qed

theorem frameshiftScan_merge_witness:
  "merge fsAl fsPrev = Inr fsMerged
   \<and> frameshiftScan True (Some fsPrev) [fsAl] = Inr [fsPrev \<lparr>reported := True\<rparr>, fsMerged]
   \<and> {targetStart fsMerged ..< targetEnd fsMerged}
        = {targetStart fsPrev ..< targetEnd fsPrev} \<union> {targetStart fsAl ..< targetEnd fsAl}"
proof -
  have h1: "mergeCond fsAl fsPrev"
    by (simp add: mergeCond_def fsAl_def fsPrev_def getFrame_def)
  have m: "merge fsAl fsPrev = Inr fsMerged"
    by (simp add: merge_def fsMerged_def fsAl_def fsPrev_def)
  have q: "qc True fsMerged"
    by (simp add: qc_def fsMerged_def fsAl_def fsPrev_def stxClass2identity_table_def isLeft_def)
  have h2: "frameshiftScan True (Some fsPrev) [fsAl] = Inr [fsPrev \<lparr>reported := True\<rparr>, fsMerged]"
    using h1 m q by simp
  have c: "targetStart fsAl \<le> targetEnd fsPrev \<and> targetEnd fsPrev \<le> targetEnd fsAl"
    by (simp add: fsAl_def fsPrev_def)
  from frameshiftScan_merge [OF h1 h2] obtain al'
    where a: "merge fsAl fsPrev = Inr al'"
      and u: "if targetStart fsAl \<le> targetEnd fsPrev \<and> targetEnd fsPrev \<le> targetEnd fsAl
              then {targetStart al' ..< targetEnd al'}
                     = {targetStart fsPrev ..< targetEnd fsPrev}
                       \<union> {targetStart fsAl ..< targetEnd fsAl}
              else True"
    by blast
  from a m have "al' = fsMerged" by simp
  with u c m h2 show ?thesis by simp
qed

text \<open>
  C7 as stated fails in its remark on the target range: \<open>nestedAl\<close> lies inside its
  predecessor \<open>fsPrev\<close> and is merged with it; the merged hit has the target range 0-25,
  which does not reach the end, 30, of the earlier hit.
\<close>

theorem merge_range_union_counterexample:
  "mergeCond nestedAl fsPrev
   \<and> findFrameshifts True [nestedAl, fsPrev] = Inr [fsPrev \<lparr>reported := True\<rparr>, nestedMerged]
   \<and> frameshiftScan True (Some fsPrev) [nestedAl] = Inr [fsPrev \<lparr>reported := True\<rparr>, nestedMerged]
   \<and> targetStart nestedMerged = 0 \<and> targetEnd nestedMerged = 25
   \<and> targetStart fsPrev = 0 \<and> targetEnd fsPrev = 30
   \<and> 27 \<in> {targetStart fsPrev ..< targetEnd fsPrev} \<union> {targetStart nestedAl ..< targetEnd nestedAl}
   \<and> 27 \<notin> {targetStart nestedMerged ..< targetEnd nestedMerged}"
proof -
  have h1: "mergeCond nestedAl fsPrev"
    by (simp add: mergeCond_def nestedAl_def fsPrev_def getFrame_def)
  have m: "merge nestedAl fsPrev = Inr nestedMerged"
    by (simp add: merge_def nestedMerged_def nestedAl_def fsPrev_def)
  have q: "qc True nestedMerged"
    by (simp add: qc_def nestedMerged_def nestedAl_def fsPrev_def stxClass2identity_table_def
        isLeft_def)
  have h2: "frameshiftScan True (Some fsPrev) [nestedAl]
      = Inr [fsPrev \<lparr>reported := True\<rparr>, nestedMerged]"
    using h1 m q by simp
  have h3: "findFrameshifts True [nestedAl, fsPrev]
      = Inr [fsPrev \<lparr>reported := True\<rparr>, nestedMerged]"
    by code_simp
  show ?thesis
    using h1 h2 h3 by (simp add: nestedMerged_def nestedAl_def fsPrev_def)
qed

section \<open>The reference-frame projection\<close>

lemma refMapLoop_length:
  "i + length rs \<le> length t \<Longrightarrow>
   \<exists>r. refMapLoop rs t i s = Some r
      \<and> length r = length s + length (filter (\<lambda>c. c \<noteq> CHR ''-'') rs)"
proof (induction rs arbitrary: i s)
  case Nil
  then show ?case by simp
next
  case (Cons r rs)
  then have i: "i < length t" and step: "Suc i + length rs \<le> length t" by simp_all
  show ?case
  proof (cases "r = CHR ''-''")
    case True
    then show ?thesis using Cons.IH [OF step, of s] by simp
  next
    case False
    then show ?thesis using Cons.IH [OF step, of "s @ [t ! i]"] i by (simp add: strAt_def)
  qed
qed

text \<open>
  C10, as the source has it. \<open>refMap al len\<close> has length \<open>len\<close>, so that every index
  below \<open>len\<close> is a read inside it, when \<open>refLen \<le> len\<close>, the reference range lies in the
  reference (\<open>refStart \<le> refEnd \<le> refLen\<close>), the two aligned sequences have equal length
  and the aligned reference sequence has exactly \<open>refEnd - refStart\<close> columns that are
  not gaps. The source checks the other conditions (\<open>refEnd \<le> refLen\<close> only when
  checking is on) and relies on the aligner for the last. The merged hit \<open>fsMerged\<close> of two fragments keeps the aligned sequences of
  the later fragment only: its 320-column projection has 310 characters, and the
  reads at 312 and 318 are beyond it.
\<close>

theorem refMap_length:
  assumes "refLen al \<le> len" and "refEnd al \<le> refLen al" and "refStart al \<le> refEnd al"
    and "length (targetSeq al) = length (refSeq al)"
    and "length (filter (\<lambda>c. c \<noteq> CHR ''-'') (refSeq al)) = unat (refEnd al - refStart al)"
  shows "(\<exists>s. refMap al len = Inr s \<and> length s = unat len
              \<and> (\<forall>i < unat len. strAt s i = Some (s ! i)))
    \<and> merge fsAl fsPrev = Inr fsMerged
    \<and> refMap fsMerged 320 = Inr (''CLLLGFSSVS'' @ replicate 300 CHR ''-'')
    \<and> strAt (''CLLLGFSSVS'' @ replicate 300 CHR ''-'') 312 = None
    \<and> strAt (''CLLLGFSSVS'' @ replicate 300 CHR ''-'') 318 = None"
proof -
  from assms(4) obtain r
    where r: "refMapLoop (refSeq al) (targetSeq al) 0 (replicate (unat (refStart al)) CHR ''-'')
                = Some r"
      and lr: "length r
                = unat (refStart al) + length (filter (\<lambda>c. c \<noteq> CHR ''-'') (refSeq al))"
    using refMapLoop_length
      [of 0 "refSeq al" "targetSeq al" "replicate (unat (refStart al)) CHR ''-''"]
    by auto
  have le: "refEnd al \<le> len"
    using assms(1,2) by simp
  have "unat (refEnd al - refStart al) = unat (refEnd al) - unat (refStart al)"
    using assms(3) by (simp add: unat_sub)
  moreover have "unat (len - refEnd al) = unat len - unat (refEnd al)"
    using le by (simp add: unat_sub)
  moreover have "unat (refStart al) \<le> unat (refEnd al)" "unat (refEnd al) \<le> unat len"
    using assms(3) le by (simp_all add: word_le_nat_alt)
  ultimately have "length r + unat (len - refEnd al) = unat len"
    using lr assms(5) by simp
  then have first: "\<exists>s. refMap al len = Inr s \<and> length s = unat len
      \<and> (\<forall>i < unat len. strAt s i = Some (s ! i))"
    using r le assms(1) by (simp add: refMap_def not_less [symmetric] strAt_def)
  have m: "merge fsAl fsPrev = Inr fsMerged"
    by (simp add: merge_def fsMerged_def fsAl_def fsPrev_def)
  have p: "refMap fsMerged 320 = Inr (''CLLLGFSSVS'' @ replicate 300 CHR ''-'')"
    by (simp add: refMap_def fsMerged_def fsAl_def fsPrev_def strAt_def)
  have o: "strAt (''CLLLGFSSVS'' @ replicate 300 CHR ''-'') 312 = None"
    "strAt (''CLLLGFSSVS'' @ replicate 300 CHR ''-'') 318 = None"
    by (simp_all add: strAt_def)
  show ?thesis
    using first m p o by simp
qed

theorem refMap_length_witness:
  "\<exists>s. refMap class2A 320 = Inr s \<and> length s = 320 \<and> strAt s 312 = Some (s ! 312)
      \<and> strAt s 318 = Some (s ! 318)"
proof -
  have h1: "refLen class2A \<le> 320" by (simp add: class2A_def)
  have h2: "refEnd class2A \<le> refLen class2A" by (simp add: class2A_def)
  have h3: "refStart class2A \<le> refEnd class2A" by (simp add: class2A_def)
  have h4: "length (targetSeq class2A) = length (refSeq class2A)" by (simp add: class2A_def)
  have h5: "length (filter (\<lambda>c. c \<noteq> CHR ''-'') (refSeq class2A))
      = unat (refEnd class2A - refStart class2A)"
    by (simp add: class2A_def)
  show ?thesis
    using refMap_length [OF h1 h2 h3 h4 h5] by auto
qed

text \<open>
  C10 as stated fails: \<open>gappedHit\<close> is what the constructor makes of the line
  \<open>rawGapped\<close>; it passes \<open>qc\<close>, is not frameshifted and has \<open>refLen \<le> 320\<close>, and its
  320-column projection has 317 characters, so that the read at 318 is beyond it.
\<close>

theorem refMap_short_counterexample:
  "BlastAlignment_of rawGapped = Inr gappedHit
   \<and> qc True gappedHit \<and> \<not> frameshift gappedHit \<and> refLen gappedHit \<le> 320
   \<and> refMap gappedHit 320 = Inr (''A'' @ replicate 316 CHR ''-'')
   \<and> length (''A'' @ replicate 316 CHR ''-'') = 317
   \<and> strAt (''A'' @ replicate 316 CHR ''-'') 318 = None"
  by (simp add: BlastAlignment_of_def rawGapped_def gappedHit_def rfindSplit_def isLeft_def
      stxS_def Let_def foldClass_def findStopCodon_def qc_def stxClass2identity_table_def
      refMap_def strAt_def)


section \<open>Sorting\<close>

lemma mset_insort_by: "mset (insort_by lt x ys) = add_mset x (mset ys)"
  by (induction ys) auto

lemma set_insort_by: "set (insort_by lt x ys) = insert x (set ys)"
  by (induction ys) auto

lemma mset_foldl_insort_by:
  "mset (foldl (\<lambda>sorted x. insort_by lt x sorted) acc xs) = mset acc + mset xs"
  by (induction xs arbitrary: acc) (auto simp: mset_insort_by)

lemma mset_sort_by: "mset (sort_by lt xs) = mset xs"
  by (simp add: sort_by_def mset_foldl_insort_by)

lemma set_sort_by: "set (sort_by lt xs) = set xs"
  using mset_sort_by [of lt xs] by (metis set_mset_mset)

lemma sorted_insort_by:
  fixes key :: "'a \<Rightarrow> 'k::linorder"
  assumes "\<And>a b. lt a b = (key a < key b)"
  shows "sorted_wrt (\<lambda>a b. key a \<le> key b) ys
     \<Longrightarrow> sorted_wrt (\<lambda>a b. key a \<le> key b) (insort_by lt x ys)"
  by (induction ys) (auto simp: assms set_insort_by)

lemma sorted_foldl_insort_by:
  fixes key :: "'a \<Rightarrow> 'k::linorder"
  assumes "\<And>a b. lt a b = (key a < key b)"
  shows "sorted_wrt (\<lambda>a b. key a \<le> key b) acc
     \<Longrightarrow> sorted_wrt (\<lambda>a b. key a \<le> key b) (foldl (\<lambda>sorted x. insort_by lt x sorted) acc xs)"
proof (induction xs arbitrary: acc)
  case Nil
  then show ?case by simp
next
  case (Cons x xs)
  have "sorted_wrt (\<lambda>a b. key a \<le> key b) (insort_by lt x acc)"
    using Cons.prems by (rule sorted_insort_by [OF assms])
  then show ?case using Cons.IH by simp
qed

lemma sorted_sort_by:
  fixes key :: "'a \<Rightarrow> 'k::linorder"
  assumes "\<And>a b. lt a b = (key a < key b)"
  shows "sorted_wrt (\<lambda>a b. key a \<le> key b) (sort_by lt xs)"
  unfolding sort_by_def by (rule sorted_foldl_insort_by [OF assms]) simp

lemma insort_by_last:
  "\<forall>y\<in>set ys. \<not> lt x y \<Longrightarrow> insort_by lt x ys = ys @ [x]"
  by (induction ys) auto

lemma foldl_insort_by_sorted:
  fixes key :: "'a \<Rightarrow> 'k::linorder"
  assumes "\<And>a b. lt a b = (key a < key b)"
  shows "sorted_wrt (\<lambda>a b. key a \<le> key b) (acc @ xs)
     \<Longrightarrow> foldl (\<lambda>sorted x. insort_by lt x sorted) acc xs = acc @ xs"
proof (induction xs arbitrary: acc)
  case Nil
  then show ?case by simp
next
  case (Cons x xs)
  have "\<forall>y\<in>set acc. \<not> lt x y"
    using Cons.prems by (auto simp: assms sorted_wrt_append not_less)
  then have "insort_by lt x acc = acc @ [x]" by (rule insort_by_last)
  then show ?case using Cons.IH [of "acc @ [x]"] Cons.prems by simp
qed

lemma sort_by_sorted:
  fixes key :: "'a \<Rightarrow> 'k::linorder"
  assumes "\<And>a b. lt a b = (key a < key b)"
    and "sorted_wrt (\<lambda>a b. key a \<le> key b) xs"
  shows "sort_by lt xs = xs"
  unfolding sort_by_def
  using foldl_insort_by_sorted [OF assms(1), where acc = "[]" and xs = xs] assms(2) by simp

lemma sorted_wrt_unique:
  assumes "sorted_wrt R xs" and "sorted_wrt R ys" and "mset xs = mset ys"
    and "\<And>a b. a \<in> set xs \<Longrightarrow> b \<in> set xs \<Longrightarrow> R a b \<Longrightarrow> R b a \<Longrightarrow> a = b"
  shows "xs = ys"
  using assms
proof (induction xs arbitrary: ys)
  case Nil
  then show ?case by simp
next
  case (Cons x xs)
  then obtain y ys' where ys: "ys = y # ys'" by (cases ys) auto
  have sets: "set (x # xs) = set (y # ys')"
    using Cons.prems(3) ys by (metis set_mset_mset)
  have "x = y"
  proof (rule ccontr)
    assume ne: "x \<noteq> y"
    then have "x \<in> set ys'" "y \<in> set xs" using sets by auto
    then have "R y x" "R x y" using Cons.prems(1,2) ys by auto
    moreover have "x \<in> set (x # xs)" "y \<in> set (x # xs)" using \<open>y \<in> set xs\<close> by simp_all
    ultimately have "x = y" using Cons.prems(4) by blast
    then show False using ne by simp
  qed
  moreover have "xs = ys'"
  proof (rule Cons.IH)
    show "sorted_wrt R xs" using Cons.prems(1) by simp
    show "sorted_wrt R ys'" using Cons.prems(2) ys by simp
    show "mset xs = mset ys'" using Cons.prems(3) ys \<open>x = y\<close> by simp
    show "\<And>a b. a \<in> set xs \<Longrightarrow> b \<in> set xs \<Longrightarrow> R a b \<Longrightarrow> R b a \<Longrightarrow> a = b"
      using Cons.prems(4) by auto
  qed
  ultimately show ?case using ys by simp
qed


section \<open>Hit-level redundancy filter\<close>

declare advanceStart.simps [simp del] suppressLoop.simps [simp del] filterLoop.simps [simp del]

lemma LESS_PART_last: "LESS_PART x y False = (x < y)"
  by (simp add: LESS_PART_def)

lemma LESS_PART_prod: "LESS_PART x y (a < b) = ((x, a) < (y, b))"
  by (auto simp: LESS_PART_def)

lemma regroup4:
  "((n, s, c, u, r) < (n', s', c', u', r')) = (((n, s, c, u), r) < ((n', s', c', u'), r'))"
  by (simp only: less_prod_simp less_eq_prod_simp) auto

lemma sameTypeLess_key: "sameTypeLess a b = (sameTypeKey a < sameTypeKey b)"
proof -
  have "sameTypeLess a b =
      ((reported a, targetName a, targetStrand a, stxClass a, subunit a, targetStart a, getDiff a,
        refAccession a)
       < (reported b, targetName b, targetStrand b, stxClass b, subunit b, targetStart b,
          getDiff b, refAccession b))"
    unfolding sameTypeLess_def by (simp only: LESS_PART_last LESS_PART_prod)
  also have "\<dots> = (sameTypeKey a < sameTypeKey b)"
    unfolding sameTypeKey_def groupKey_def
    by (subst (2) less_prod_simp, subst regroup4 [symmetric], subst less_prod_simp) (rule refl)
  finally show ?thesis .
qed


lemma key_reported:
  "sameTypeKey a \<le> sameTypeKey b \<Longrightarrow> \<not> reported b \<Longrightarrow> \<not> reported a"
  by (auto simp: sameTypeKey_def)

lemma key_group:
  "sameTypeKey a \<le> sameTypeKey b \<Longrightarrow> \<not> reported b \<Longrightarrow> groupKey a \<le> groupKey b"
  by (auto simp: sameTypeKey_def)

lemma key_start:
  "sameTypeKey a \<le> sameTypeKey b \<Longrightarrow> \<not> reported b \<Longrightarrow> groupKey a = groupKey b
    \<Longrightarrow> targetStart a \<le> targetStart b"
  by (auto simp: sameTypeKey_def)

lemma inWindow_iff:
  "inWindow s al = (groupKey s = groupKey al \<and> targetStart al < targetEnd s)"
  by (auto simp: inWindow_def groupKey_def)

lemma advanceStart_props:
  "start \<le> i \<Longrightarrow>
   start \<le> advanceStart xs start i \<and> advanceStart xs start i \<le> i
   \<and> (\<forall>j. start \<le> j \<and> j < advanceStart xs start i \<longrightarrow> \<not> inWindow (xs ! j) (xs ! i))
   \<and> (advanceStart xs start i < i \<longrightarrow> inWindow (xs ! advanceStart xs start i) (xs ! i))"
proof (induction "i - start" arbitrary: start)
  case 0
  then have "start = i" by simp
  then have "advanceStart xs start i = i" by (simp add: advanceStart.simps)
  then show ?case using \<open>start = i\<close> by auto
next
  case (Suc n)
  then have lt: "start < i" and n: "n = i - Suc start" and le: "Suc start \<le> i" by simp_all
  show ?case
  proof (cases "inWindow (xs ! start) (xs ! i)")
    case True
    then have "advanceStart xs start i = start" by (simp add: advanceStart.simps)
    then show ?thesis using True lt by auto
  next
    case False
    then have eq: "advanceStart xs start i = advanceStart xs (Suc start) i"
      using lt by (subst advanceStart.simps) simp
    have ih: "Suc start \<le> advanceStart xs (Suc start) i \<and> advanceStart xs (Suc start) i \<le> i
       \<and> (\<forall>j. Suc start \<le> j \<and> j < advanceStart xs (Suc start) i
              \<longrightarrow> \<not> inWindow (xs ! j) (xs ! i))
       \<and> (advanceStart xs (Suc start) i < i
              \<longrightarrow> inWindow (xs ! advanceStart xs (Suc start) i) (xs ! i))"
      using Suc.hyps(1) [OF n le] .
    have "\<And>j. start \<le> j \<Longrightarrow> j < advanceStart xs (Suc start) i \<Longrightarrow> \<not> inWindow (xs ! j) (xs ! i)"
    proof -
      fix j assume j: "start \<le> j" "j < advanceStart xs (Suc start) i"
      show "\<not> inWindow (xs ! j) (xs ! i)"
      proof (cases "j = start")
        case True
        then show ?thesis using False by simp
      next
        case False
        then have "Suc start \<le> j" using j(1) by simp
        then show ?thesis using ih j(2) by blast
      qed
    qed
    then show ?thesis using ih unfolding eq by auto
  qed
qed

lemma suppressLoop_ok:
  "(\<forall>j. j0 \<le> j \<and> j < i \<longrightarrow> \<not> reported (xs ! j) \<and> groupKey (xs ! j) = groupKey (xs ! i))
   \<Longrightarrow> suppressLoop xs j0 i
        = Inr (\<exists>j. j0 \<le> j \<and> j < i \<and> insideEq (xs ! i) (xs ! j) \<and> getDiff (xs ! j) \<le> getDiff (xs ! i))"
proof (induction "i - j0" arbitrary: j0)
  case 0
  then have "\<not> j0 < i" by simp
  then show ?case by (subst suppressLoop.simps) auto
next
  case (Suc n)
  then have lt: "j0 < i" and n: "n = i - Suc j0" by simp_all
  have here: "\<not> reported (xs ! j0)" "groupKey (xs ! j0) = groupKey (xs ! i)"
    using Suc.prems lt by auto
  then have asserts: "targetName (xs ! i) = targetName (xs ! j0)"
    "targetStrand (xs ! i) = targetStrand (xs ! j0)"
    "stxClass (xs ! i) = stxClass (xs ! j0)" "subunit (xs ! i) = subunit (xs ! j0)"
    by (simp_all add: groupKey_def)
  have rest: "\<forall>j. Suc j0 \<le> j \<and> j < i
      \<longrightarrow> \<not> reported (xs ! j) \<and> groupKey (xs ! j) = groupKey (xs ! i)"
    using Suc.prems by auto
  show ?case
  proof (cases "insideEq (xs ! i) (xs ! j0) \<and> getDiff (xs ! j0) \<le> getDiff (xs ! i)")
    case True
    then have "suppressLoop xs j0 i = Inr True"
      using lt here(1) asserts by (subst suppressLoop.simps) simp
    moreover have "\<exists>j. j0 \<le> j \<and> j < i \<and> insideEq (xs ! i) (xs ! j) \<and> getDiff (xs ! j) \<le> getDiff (xs ! i)"
      using True lt by blast
    ultimately show ?thesis by simp
  next
    case False
    then have "suppressLoop xs j0 i = suppressLoop xs (Suc j0) i"
      using lt here(1) asserts by (subst suppressLoop.simps) auto
    also have "\<dots> = Inr (\<exists>j. Suc j0 \<le> j \<and> j < i \<and> insideEq (xs ! i) (xs ! j)
        \<and> getDiff (xs ! j) \<le> getDiff (xs ! i))"
      using Suc.hyps(1) [OF n rest] .
    also have "(\<exists>j. Suc j0 \<le> j \<and> j < i \<and> insideEq (xs ! i) (xs ! j)
        \<and> getDiff (xs ! j) \<le> getDiff (xs ! i))
      = (\<exists>j. j0 \<le> j \<and> j < i \<and> insideEq (xs ! i) (xs ! j) \<and> getDiff (xs ! j) \<le> getDiff (xs ! i))"
      using False by (metis Suc_leD Suc_leI le_neq_implies_less)
    finally show ?thesis .
  qed
qed


lemma dominated_take:
  assumes "i < length xs"
  shows "dominated (take i xs) (xs ! i)
    = (\<exists>j < i. groupKey (xs ! j) = groupKey (xs ! i) \<and> insideEq (xs ! i) (xs ! j)
            \<and> getDiff (xs ! j) \<le> getDiff (xs ! i))"
proof -
  have "set (take i xs) = (\<lambda>j. xs ! j) ` {0..<i}"
    using assms nth_image [of i xs] by simp
  then show ?thesis
    unfolding dominated_def list_ex_iff by auto
qed

lemma filterLoop_keep:
  assumes sorted: "sorted_wrt (\<lambda>a b. sameTypeKey a \<le> sameTypeKey b) xs"
    and valid: "\<forall>al\<in>set xs. targetStart al < targetEnd al"
  shows "start \<le> i \<Longrightarrow> i \<le> length xs \<Longrightarrow>
    (\<forall>j < start. \<forall>k. i \<le> k \<and> k < length xs \<and> \<not> reported (xs ! k) \<longrightarrow> \<not> inWindow (xs ! j) (xs ! k))
    \<Longrightarrow> filterLoop xs start i good = Inr (good @ keep (take i xs) (drop i xs))"
proof (induction "length xs - i" arbitrary: start i good)
  case 0
  then have "i = length xs" by simp
  then show ?case by (subst filterLoop.simps) simp
next
  case (Suc n)
  then have lt: "i < length xs" and n: "n = length xs - Suc i" by simp_all
  have key_le: "\<And>a b. a < b \<Longrightarrow> b < length xs \<Longrightarrow> sameTypeKey (xs ! a) \<le> sameTypeKey (xs ! b)"
    using sorted_wrt_nth_less [OF sorted] by blast
  have dropi: "drop i xs = xs ! i # drop (Suc i) xs"
    using lt by (simp add: Cons_nth_drop_Suc)
  have takei: "take (Suc i) xs = take i xs @ [xs ! i]"
    using lt by (simp add: take_Suc_conv_app_nth)
  show ?case
  proof (cases "reported (xs ! i)")
    case True
    then have "filterLoop xs start i good = Inr good"
      using lt by (subst filterLoop.simps) simp
    then show ?thesis using True dropi by simp
  next
    case False
    define s' where "s' = advanceStart xs start i"
    have s'1: "start \<le> s'" and s'2: "s' \<le> i"
      and skipped: "\<And>j. start \<le> j \<Longrightarrow> j < s' \<Longrightarrow> \<not> inWindow (xs ! j) (xs ! i)"
      and stop: "s' < i \<Longrightarrow> inWindow (xs ! s') (xs ! i)"
      using advanceStart_props [OF Suc.prems(1), of xs] unfolding s'_def by blast+
    have unrep: "\<And>j. j < i \<Longrightarrow> \<not> reported (xs ! j)"
      using key_le lt False key_reported by blast
    have grp: "\<And>j. s' \<le> j \<Longrightarrow> j < i \<Longrightarrow> groupKey (xs ! j) = groupKey (xs ! i)"
    proof -
      fix j assume j: "s' \<le> j" "j < i"
      then have "s' < i" by simp
      then have g0: "groupKey (xs ! s') = groupKey (xs ! i)"
        using stop by (simp add: inWindow_iff)
      have "groupKey (xs ! s') \<le> groupKey (xs ! j)"
      proof (cases "s' = j")
        case True
        then show ?thesis by simp
      next
        case False
        then have "s' < j" using j(1) by simp
        then show ?thesis using key_le [of s' j] key_group unrep j(2) lt by simp
      qed
      moreover have "groupKey (xs ! j) \<le> groupKey (xs ! i)"
        using key_le [OF j(2) lt] key_group \<open>\<not> reported (xs ! i)\<close> by blast
      ultimately show "groupKey (xs ! j) = groupKey (xs ! i)"
        using g0 by simp
    qed
    define D where "D = (\<exists>j. s' \<le> j \<and> j < i \<and> insideEq (xs ! i) (xs ! j)
        \<and> getDiff (xs ! j) \<le> getDiff (xs ! i))"
    have sup: "suppressLoop xs s' i = Inr D"
      unfolding D_def by (rule suppressLoop_ok) (use unrep grp in blast)
    have notwin: "\<And>j. j < s' \<Longrightarrow> \<not> inWindow (xs ! j) (xs ! i)"
    proof -
      fix j assume j: "j < s'"
      show "\<not> inWindow (xs ! j) (xs ! i)"
      proof (cases "j < start")
        case True
        then show ?thesis using Suc.prems(3) lt False by blast
      next
        case False
        then show ?thesis using skipped j by simp
      qed
    qed
    have xi: "targetStart (xs ! i) < targetEnd (xs ! i)"
      using valid lt by simp
    have dom: "dominated (take i xs) (xs ! i) = D"
      unfolding D_def
    proof
      assume "dominated (take i xs) (xs ! i)"
      then obtain j where j: "j < i" "groupKey (xs ! j) = groupKey (xs ! i)"
        "insideEq (xs ! i) (xs ! j)" "getDiff (xs ! j) \<le> getDiff (xs ! i)"
        using dominated_take [OF lt] by blast
      have "s' \<le> j"
      proof (rule ccontr)
        assume "\<not> s' \<le> j"
        then have "\<not> inWindow (xs ! j) (xs ! i)" using notwin by simp
        then have "targetEnd (xs ! j) \<le> targetStart (xs ! i)"
          using j(2) by (simp add: inWindow_iff not_less)
        moreover have "targetEnd (xs ! i) \<le> targetEnd (xs ! j)"
          using j(3) by (simp add: insideEq_def)
        ultimately show False using xi by simp
      qed
      then show "\<exists>j. s' \<le> j \<and> j < i \<and> insideEq (xs ! i) (xs ! j) \<and> getDiff (xs ! j) \<le> getDiff (xs ! i)"
        using j by blast
    next
      assume "\<exists>j. s' \<le> j \<and> j < i \<and> insideEq (xs ! i) (xs ! j) \<and> getDiff (xs ! j) \<le> getDiff (xs ! i)"
      then show "dominated (take i xs) (xs ! i)"
        using dominated_take [OF lt] grp by blast
    qed
    have inv': "\<forall>j < s'. \<forall>k. Suc i \<le> k \<and> k < length xs \<and> \<not> reported (xs ! k)
        \<longrightarrow> \<not> inWindow (xs ! j) (xs ! k)"
    proof (intro allI impI notI)
      fix j k
      assume j: "j < s'" and k: "Suc i \<le> k \<and> k < length xs \<and> \<not> reported (xs ! k)"
        and w: "inWindow (xs ! j) (xs ! k)"
      have ji: "j < i" using j s'2 by simp
      have ik: "i < k" using k by simp
      have gjk: "groupKey (xs ! j) = groupKey (xs ! k)" and ov: "targetStart (xs ! k) < targetEnd (xs ! j)"
        using w by (simp_all add: inWindow_iff)
      have "groupKey (xs ! j) \<le> groupKey (xs ! i)"
        using key_le [OF ji lt] key_group False by blast
      moreover have "groupKey (xs ! i) \<le> groupKey (xs ! k)"
        using key_le [OF ik] key_group k by blast
      ultimately have gi: "groupKey (xs ! i) = groupKey (xs ! j)"
        using gjk by simp
      have "\<not> inWindow (xs ! j) (xs ! i)" using notwin j by simp
      then have "targetEnd (xs ! j) \<le> targetStart (xs ! i)"
        using gi by (simp add: inWindow_iff not_less)
      moreover have "targetStart (xs ! i) \<le> targetStart (xs ! k)"
        using key_le [OF ik] key_start k gi gjk by simp
      ultimately show False using ov by simp
    qed
    have ih: "\<And>good'. filterLoop xs s' (Suc i) good'
        = Inr (good' @ keep (take (Suc i) xs) (drop (Suc i) xs))"
      using Suc.hyps(1) [OF n _ _ inv'] s'2 lt by simp
    have "filterLoop xs start i good
        = filterLoop xs s' (Suc i) (if \<not> D then good @ [xs ! i] else good)"
      using lt False sup unfolding s'_def by (subst filterLoop.simps) simp
    then show ?thesis
      unfolding ih using False dropi takei dom by simp
  qed
qed

lemma dominated_mono: "set qs \<subseteq> set ps \<Longrightarrow> dominated qs x \<Longrightarrow> dominated ps x"
  unfolding dominated_def list_ex_iff by blast

lemma keep_idem: "set qs \<subseteq> set ps \<Longrightarrow> keep qs (keep ps xs) = keep ps xs"
proof (induction xs arbitrary: ps qs)
  case Nil
  then show ?case by simp
next
  case (Cons x xs)
  show ?case
  proof (cases "reported x")
    case True
    then show ?thesis by simp
  next
    case False
    show ?thesis
    proof (cases "dominated ps x")
      case True
      have "set qs \<subseteq> set (ps @ [x])" using Cons.prems by auto
      then show ?thesis using True False Cons.IH [of qs "ps @ [x]"] by simp
    next
      case nd: False
      then have "\<not> dominated qs x" using dominated_mono [OF Cons.prems] by blast
      moreover have "set (qs @ [x]) \<subseteq> set (ps @ [x])" using Cons.prems by auto
      ultimately show ?thesis using nd False Cons.IH [of "qs @ [x]" "ps @ [x]"] by simp
    qed
  qed
qed

lemma set_keep: "set (keep ps xs) \<subseteq> set xs"
  by (induction xs arbitrary: ps) auto

lemma sorted_keep: "sorted_wrt P xs \<Longrightarrow> sorted_wrt P (keep ps xs)"
proof (induction xs arbitrary: ps)
  case Nil
  then show ?case by simp
next
  case (Cons x xs)
  then have "sorted_wrt P (keep (ps @ [x]) xs)" by simp
  moreover have "\<forall>y\<in>set (keep (ps @ [x]) xs). P x y"
    using Cons.prems set_keep [of "ps @ [x]" xs] by auto
  ultimately show ?case by simp
qed

lemma goodBlasts_keep:
  assumes "\<forall>al\<in>set blastAls. targetStart al < targetEnd al"
  shows "goodBlasts blastAls = Inr (keep [] (sort_by sameTypeLess blastAls))"
proof -
  have "sorted_wrt (\<lambda>a b. sameTypeKey a \<le> sameTypeKey b) (sort_by sameTypeLess blastAls)"
    by (rule sorted_sort_by) (rule sameTypeLess_key)
  moreover have "\<forall>al\<in>set (sort_by sameTypeLess blastAls). targetStart al < targetEnd al"
    using assms by (simp add: set_sort_by)
  ultimately have "filterLoop (sort_by sameTypeLess blastAls) 0 0 []
      = Inr ([] @ keep (take 0 (sort_by sameTypeLess blastAls)) (drop 0 (sort_by sameTypeLess blastAls)))"
    by (rule filterLoop_keep) simp_all
  then show ?thesis by (simp add: goodBlasts_def)
qed

text \<open>
  C6. For hits with \<open>targetStart < targetEnd\<close>, as the constructor and the merger make
  them, the filter returns the hits that \<open>keep\<close> describes: of the sorted hits before
  the first reported one, those that do not lie inside an earlier hit of the same
  contig, strand, class and subunit whose diff-score is not worse. Run on that result,
  the filter returns it unchanged.
\<close>

theorem goodBlasts_idempotent:
  assumes "\<forall>al\<in>set blastAls. targetStart al < targetEnd al"
  shows "\<exists>good. goodBlasts blastAls = Inr good
    \<and> good = keep [] (sort_by sameTypeLess blastAls)
    \<and> goodBlasts good = Inr good"
proof -
  let ?xs = "sort_by sameTypeLess blastAls"
  let ?good = "keep [] ?xs"
  have first: "goodBlasts blastAls = Inr ?good"
    using assms by (rule goodBlasts_keep)
  have "sorted_wrt (\<lambda>a b. sameTypeKey a \<le> sameTypeKey b) ?xs"
    by (rule sorted_sort_by) (rule sameTypeLess_key)
  then have "sorted_wrt (\<lambda>a b. sameTypeKey a \<le> sameTypeKey b) ?good"
    by (rule sorted_keep)
  then have same: "sort_by sameTypeLess ?good = ?good"
    by (rule sort_by_sorted [OF sameTypeLess_key])
  have "\<forall>al\<in>set ?good. targetStart al < targetEnd al"
    using assms set_keep [of "[]" ?xs] by (auto simp: set_sort_by)
  then have "goodBlasts ?good = Inr (keep [] (sort_by sameTypeLess ?good))"
    by (rule goodBlasts_keep)
  also have "\<dots> = Inr ?good"
    unfolding same using keep_idem [of "[]" "[]" ?xs] by simp
  finally show ?thesis using first by blast
qed

theorem goodBlasts_idempotent_witness:
  "goodBlasts [innerA, hitA] = Inr [hitA] \<and> goodBlasts [hitA] = Inr [hitA]"
proof -
  have h: "\<forall>al\<in>set [innerA, hitA]. targetStart al < targetEnd al"
    by (simp add: innerA_def hitA_def)
  have e: "goodBlasts [innerA, hitA] = Inr [hitA]"
    by code_simp
  from goodBlasts_idempotent [OF h] obtain good
    where "goodBlasts [innerA, hitA] = Inr good" and "goodBlasts good = Inr good"
    by blast
  with e show ?thesis by simp
qed

section \<open>Operon assembler\<close>

declare pairLoop.simps [simp del] operonLoop.simps [simp del] pairStart.simps [simp del]

lemma sameHits_refl: "sameHits heap heap"
  unfolding sameHits_def
proof
  fix q
  have "heap ! q = (heap ! q) \<lparr>reported := reported (heap ! q)\<rparr>" by simp
  then show "\<exists>r. heap ! q = (heap ! q) \<lparr>reported := r\<rparr>" ..
qed

lemma sameHits_trans: "sameHits a b \<Longrightarrow> sameHits b c \<Longrightarrow> sameHits a c"
  unfolding sameHits_def
proof
  fix q
  assume ab: "\<forall>q. \<exists>r. b ! q = (a ! q) \<lparr>reported := r\<rparr>"
    and bc: "\<forall>q. \<exists>r. c ! q = (b ! q) \<lparr>reported := r\<rparr>"
  from ab obtain r1 where "b ! q = (a ! q) \<lparr>reported := r1\<rparr>" by blast
  moreover from bc obtain r2 where "c ! q = (b ! q) \<lparr>reported := r2\<rparr>" by blast
  ultimately have "c ! q = (a ! q) \<lparr>reported := r2\<rparr>" by simp
  then show "\<exists>r. c ! q = (a ! q) \<lparr>reported := r\<rparr>" ..
qed

lemma sameHits_setReported: "sameHits heap (setReported heap p)"
  unfolding sameHits_def
proof
  fix q
  show "\<exists>r. setReported heap p ! q = (heap ! q) \<lparr>reported := r\<rparr>"
  proof (cases "p < length heap \<and> q = p")
    case True
    then have "setReported heap p ! q = (heap ! q) \<lparr>reported := True\<rparr>"
      by (simp add: setReported_def)
    then show ?thesis ..
  next
    case False
    then have "setReported heap p ! q = heap ! q"
      by (cases "p < length heap") (auto simp: setReported_def list_update_beyond)
    then have "setReported heap p ! q = (heap ! q) \<lparr>reported := reported (heap ! q)\<rparr>" by simp
    then show ?thesis ..
  qed
qed

lemma acceptable_sameHits:
  assumes "sameHits h h'"
  shows "acceptable strong h' op = acceptable strong h op"
proof -
  from assms obtain r1 where a: "h' ! fst op = (h ! fst op) \<lparr>reported := r1\<rparr>"
    unfolding sameHits_def by blast
  from assms obtain r2 where b: "h' ! snd op = (h ! snd op) \<lparr>reported := r2\<rparr>"
    unfolding sameHits_def by blast
  show ?thesis
    by (simp add: acceptable_def a b gapOk_def identityOk_def Operon_getIdentity_def)
qed

lemma asmInv_accept:
  assumes "asmInv strong h0 ops0 st"
    and "gapOk strong (fst st ! p1) (fst st ! p2)" and "identityOk strong (fst st ! p1) (fst st ! p2)"
  shows "asmInv strong h0 ops0 (setReported (setReported (fst st) p1) p2, snd st @ [(p1, p2)])"
proof -
  from assms(1) have s: "sameHits h0 (fst st)"
    and "\<exists>new. snd st = ops0 @ new \<and> (\<forall>op\<in>set new. acceptable strong h0 op)"
    by (simp_all add: asmInv_def)
  then obtain new where n: "snd st = ops0 @ new" "\<forall>op\<in>set new. acceptable strong h0 op"
    by blast
  have "acceptable strong (fst st) (p1, p2)"
    using assms(2,3) by (simp add: acceptable_def)
  then have a: "acceptable strong h0 (p1, p2)"
    using acceptable_sameHits [OF s] by simp
  have "sameHits h0 (setReported (setReported (fst st) p1) p2)"
    using s sameHits_setReported sameHits_trans by blast
  moreover have "snd st @ [(p1, p2)] = ops0 @ (new @ [(p1, p2)])"
    using n(1) by simp
  moreover have "\<forall>op\<in>set (new @ [(p1, p2)]). acceptable strong h0 op"
    using n(2) a by simp
  ultimately show ?thesis
    unfolding asmInv_def by (metis fst_conv snd_conv)
qed

lemma pairLoop_inv:
  assumes "pairLoop good sameType strong i j st = Inr st'" and "asmInv strong h0 ops0 st"
  shows "asmInv strong h0 ops0 st'"
  using assms
proof (induction "i - j" arbitrary: j st)
  case 0
  then have "\<not> j < i" by simp
  then have "pairLoop good sameType strong i j st = Inr st"
    by (simp add: pairLoop.simps)
  then show ?case using 0 by simp
next
  case (Suc n)
  then have lt: "j < i" and n: "n = i - Suc j" by simp_all
  define p1 where "p1 = (if targetStrand (fst st ! (good ! j)) then good ! j else good ! i)"
  define p2 where "p2 = (if targetStrand (fst st ! (good ! j)) then good ! i else good ! j)"
  have unfold: "pairLoop good sameType strong i j st =
      (if reported (fst st ! (good ! j)) then pairLoop good sameType strong i (Suc j) st
       else if \<not> (targetName (fst st ! (good ! j)) = targetName (fst st ! (good ! i)))
         then Inl AssertFailed
       else if \<not> (targetStrand (fst st ! (good ! j)) = targetStrand (fst st ! (good ! i)))
         then Inl AssertFailed
       else if sameType \<and> \<not> (stxClass (fst st ! (good ! j)) = stxClass (fst st ! (good ! i)))
         then Inl AssertFailed
       else if \<not> (subunit (fst st ! (good ! j)) \<le> subunit (fst st ! (good ! i)))
         then Inl AssertFailed
       else if subunit (fst st ! (good ! j)) = subunit (fst st ! (good ! i)) then Inr st
       else if \<not> (subunit (fst st ! (good ! j)) = CHR ''A'') then Inl AssertFailed
       else if gapOk strong (fst st ! p1) (fst st ! p2) \<and> identityOk strong (fst st ! p1) (fst st ! p2)
         then pairLoop good sameType strong i (Suc j)
                (setReported (setReported (fst st) p1) p2, snd st @ [(p1, p2)])
       else pairLoop good sameType strong i (Suc j) st)"
    using lt by (subst pairLoop.simps) (simp only: Let_def p1_def p2_def if_True)
  have "pairLoop good sameType strong i (Suc j) st = Inr st'
      \<or> st' = st
      \<or> (gapOk strong (fst st ! p1) (fst st ! p2) \<and> identityOk strong (fst st ! p1) (fst st ! p2)
          \<and> pairLoop good sameType strong i (Suc j)
               (setReported (setReported (fst st) p1) p2, snd st @ [(p1, p2)]) = Inr st')"
    using Suc.prems(1) unfolding unfold by (simp split: if_splits)
  then consider (skip) "pairLoop good sameType strong i (Suc j) st = Inr st'"
    | (break) "st' = st"
    | (accept) "gapOk strong (fst st ! p1) (fst st ! p2)" "identityOk strong (fst st ! p1) (fst st ! p2)"
        "pairLoop good sameType strong i (Suc j)
           (setReported (setReported (fst st) p1) p2, snd st @ [(p1, p2)]) = Inr st'"
    by blast
  then show ?case
  proof cases
    case skip
    then show ?thesis using Suc.hyps(1) [OF n] Suc.prems(2) by blast
  next
    case break
    then show ?thesis using Suc.prems(2) by simp
  next
    case accept
    have "asmInv strong h0 ops0 (setReported (setReported (fst st) p1) p2, snd st @ [(p1, p2)])"
      using Suc.prems(2) accept(1,2) by (rule asmInv_accept)
    then show ?thesis using Suc.hyps(1) [OF n accept(3)] by blast
  qed
qed

lemma operonLoop_inv:
  assumes "operonLoop good sameType strong start i st = Inr st'" and "asmInv strong h0 ops0 st"
  shows "asmInv strong h0 ops0 st'"
  using assms
proof (induction "length good - i" arbitrary: start i st)
  case 0
  then have "\<not> i < length good" by simp
  then have "operonLoop good sameType strong start i st = Inr st"
    by (simp add: operonLoop.simps)
  then show ?case using 0 by simp
next
  case (Suc n)
  then have lt: "i < length good" and n: "n = length good - Suc i" by simp_all
  have "operonLoop good sameType strong start (Suc i) st = Inr st'
      \<or> (\<exists>st1. pairLoop good sameType strong i (pairStart (fst st) good sameType start i) st
                  = Inr st1
              \<and> operonLoop good sameType strong (pairStart (fst st) good sameType start i)
                    (Suc i) st1 = Inr st')"
    using Suc.prems(1) lt
    by (subst (asm) operonLoop.simps) (auto split: if_splits sum.splits)
  then consider (skip) "operonLoop good sameType strong start (Suc i) st = Inr st'"
    | (pair) st1 where
        "pairLoop good sameType strong i (pairStart (fst st) good sameType start i) st = Inr st1"
        "operonLoop good sameType strong (pairStart (fst st) good sameType start i) (Suc i) st1
           = Inr st'"
    by blast
  then show ?case
  proof cases
    case skip
    then show ?thesis using Suc.hyps(1) [OF n] Suc.prems(2) by blast
  next
    case pair
    have "asmInv strong h0 ops0 st1"
      using pair(1) Suc.prems(2) by (rule pairLoop_inv)
    then show ?thesis using Suc.hyps(1) [OF n pair(2)] by blast
  qed
qed

lemma sameHits_suppressByOperons: "sameHits heap (suppressByOperons operons good heap)"
proof (induction good arbitrary: heap)
  case Nil
  then show ?case by (simp add: sameHits_refl)
next
  case (Cons p ps)
  show ?case
    using Cons [of heap] Cons [of "setReported heap p"] sameHits_setReported [of heap p]
      sameHits_trans
    by (cases "\<not> reported (heap ! p) \<and> list_ex (coveredBy heap (heap ! p)) operons") auto
qed

text \<open>
  C4. Every operon that a pass of the assembler adds lies within the gap threshold of
  the pass: the upstream hit ends no later than the downstream hit starts, and the gap
  is at most \<open>intergenic_max\<close> in a strong pass and twice that in the weak pass. In a
  strong pass the identity of the pair is at least the minimum identity of the class
  of either hit. In the weak pass the gap alone decides: a candidate pair within
  twice \<open>intergenic_max\<close> is accepted whatever its identity.
\<close>

theorem goodBlasts2operons_accepts_only:
  "(goodBlasts2operons good sameType strong (heap, operons) = Inr (heap', operons') \<longrightarrow>
     (\<exists>new. operons' = operons @ new
       \<and> (\<forall>op\<in>set new.
            targetEnd (heap ! fst op) \<le> targetStart (heap ! snd op)
          \<and> targetStart (heap ! snd op) - targetEnd (heap ! fst op)
              \<le> (if strong then intergenic_max else 2 * intergenic_max)
          \<and> (if strong
              then dge (Operon_getIdentity (heap ! fst op) (heap ! snd op))
                       (stxClass2identity (stxClass (heap ! fst op)))
                 \<and> dge (Operon_getIdentity (heap ! fst op) (heap ! snd op))
                       (stxClass2identity (stxClass (heap ! snd op)))
              else True))))
   \<and> (j < i \<and> \<not> reported (heap ! (good ! j))
       \<and> targetName (heap ! (good ! j)) = targetName (heap ! (good ! i))
       \<and> targetStrand (heap ! (good ! j)) = targetStrand (heap ! (good ! i))
       \<and> subunit (heap ! (good ! j)) = CHR ''A'' \<and> subunit (heap ! (good ! i)) = CHR ''B''
       \<and> p1 = (if targetStrand (heap ! (good ! j)) then good ! j else good ! i)
       \<and> p2 = (if targetStrand (heap ! (good ! j)) then good ! i else good ! j)
       \<and> targetEnd (heap ! p1) \<le> targetStart (heap ! p2)
       \<and> targetStart (heap ! p2) - targetEnd (heap ! p1) \<le> 2 * intergenic_max \<longrightarrow>
      pairLoop good False False i j (heap, operons)
        = pairLoop good False False i (Suc j)
            (setReported (setReported heap p1) p2, operons @ [(p1, p2)]))"
proof (intro conjI impI)
  assume run: "goodBlasts2operons good sameType strong (heap, operons) = Inr (heap', operons')"
  then obtain st' where loop: "operonLoop good sameType strong 0 0 (heap, operons) = Inr st'"
    and ops: "operons' = snd st'"
    by (auto simp: goodBlasts2operons_def split: if_splits sum.splits)
  have "asmInv strong heap operons (heap, operons)"
    by (simp add: asmInv_def sameHits_refl)
  with loop have "asmInv strong heap operons st'" by (rule operonLoop_inv)
  then obtain new where "snd st' = operons @ new" "\<forall>op\<in>set new. acceptable strong heap op"
    unfolding asmInv_def by blast
  then show "\<exists>new. operons' = operons @ new
       \<and> (\<forall>op\<in>set new.
            targetEnd (heap ! fst op) \<le> targetStart (heap ! snd op)
          \<and> targetStart (heap ! snd op) - targetEnd (heap ! fst op)
              \<le> (if strong then intergenic_max else 2 * intergenic_max)
          \<and> (if strong
              then dge (Operon_getIdentity (heap ! fst op) (heap ! snd op))
                       (stxClass2identity (stxClass (heap ! fst op)))
                 \<and> dge (Operon_getIdentity (heap ! fst op) (heap ! snd op))
                       (stxClass2identity (stxClass (heap ! snd op)))
              else True))"
    using ops by (auto simp: acceptable_def gapOk_def identityOk_def mult.commute)
next
  assume c: "j < i \<and> \<not> reported (heap ! (good ! j))
       \<and> targetName (heap ! (good ! j)) = targetName (heap ! (good ! i))
       \<and> targetStrand (heap ! (good ! j)) = targetStrand (heap ! (good ! i))
       \<and> subunit (heap ! (good ! j)) = CHR ''A'' \<and> subunit (heap ! (good ! i)) = CHR ''B''
       \<and> p1 = (if targetStrand (heap ! (good ! j)) then good ! j else good ! i)
       \<and> p2 = (if targetStrand (heap ! (good ! j)) then good ! i else good ! j)
       \<and> targetEnd (heap ! p1) \<le> targetStart (heap ! p2)
       \<and> targetStart (heap ! p2) - targetEnd (heap ! p1) \<le> 2 * intergenic_max"
  then have lt: "j < i" and nr: "\<not> reported (heap ! (good ! j))"
    and nm: "targetName (heap ! (good ! j)) = targetName (heap ! (good ! i))"
    and sd: "targetStrand (heap ! (good ! j)) = targetStrand (heap ! (good ! i))"
    and sa: "subunit (heap ! (good ! j)) = CHR ''A''" and sb: "subunit (heap ! (good ! i)) = CHR ''B''"
    and p1: "(if targetStrand (heap ! (good ! j)) then good ! j else good ! i) = p1"
    and p2: "(if targetStrand (heap ! (good ! j)) then good ! i else good ! j) = p2"
    and ge: "targetEnd (heap ! p1) \<le> targetStart (heap ! p2)"
    and gap: "targetStart (heap ! p2) - targetEnd (heap ! p1) \<le> 2 * intergenic_max"
    by blast+
  have g: "gapOk False (heap ! p1) (heap ! p2)"
    using ge gap by (simp add: gapOk_def mult.commute)
  have idn: "identityOk False (heap ! p1) (heap ! p2)"
    by (simp add: identityOk_def)
  show "pairLoop good False False i j (heap, operons)
        = pairLoop good False False i (Suc j)
            (setReported (setReported heap p1) p2, operons @ [(p1, p2)])"
  proof (cases "targetStrand (heap ! (good ! j))")
    case True
    with p1 p2 have e: "p1 = good ! j" "p2 = good ! i" by simp_all
    show ?thesis
      using True lt nr nm sd sa sb g idn unfolding e
      by (subst pairLoop.simps) (simp add: Let_def)
  next
    case False
    with p1 p2 have e: "p1 = good ! i" "p2 = good ! j" by simp_all
    show ?thesis
      using False lt nr nm sd sa sb g idn unfolding e
      by (subst pairLoop.simps) (simp add: Let_def)
  qed
qed

theorem goodBlasts2operons_accepts_only_witness:
  "goodBlasts2operons [0, 1] False False ([lowA, hitB], [])
     = Inr ([lowA \<lparr>reported := True\<rparr>, hitB \<lparr>reported := True\<rparr>], [(0, 1)])
   \<and> targetStart hitB - targetEnd lowA \<le> 2 * intergenic_max
   \<and> goodBlasts2operons [0, 1] False True ([lowA, hitB], []) = Inr ([lowA, hitB], [])
   \<and> \<not> dge (Operon_getIdentity lowA hitB) (stxClass2identity (stxClass lowA))"
proof -
  have weak: "goodBlasts2operons [0, 1] False False ([lowA, hitB], [])
      = Inr ([lowA \<lparr>reported := True\<rparr>, hitB \<lparr>reported := True\<rparr>], [(0, 1)])"
    by code_simp
  have strong: "goodBlasts2operons [0, 1] False True ([lowA, hitB], []) = Inr ([lowA, hitB], [])"
    by code_simp
  have low: "\<not> dge (Operon_getIdentity lowA hitB) (stxClass2identity (stxClass lowA))"
    by code_simp
  from goodBlasts2operons_accepts_only
    [of "[0, 1]" False False "[lowA, hitB]" "[]"
        "[lowA \<lparr>reported := True\<rparr>, hitB \<lparr>reported := True\<rparr>]" "[(0, 1)]"]
    weak
  have "targetStart ([lowA, hitB] ! snd (0, 1)) - targetEnd ([lowA, hitB] ! fst (0, 1))
      \<le> 2 * intergenic_max"
    by auto
  then show ?thesis using weak strong low by simp
qed

text \<open>
  C3. The acceptance test compares with \<^verbatim>\<open><=\<close> (line 577): the pair of \<open>hitA\<close> and \<open>adjB\<close>,
  where subunit B starts at the very position where subunit A ends, is accepted as an
  operon and reported. \<^verbatim>\<open>Operon::qc\<close> asks for \<^verbatim>\<open><\<close> (line 380), so with checking on the
  same input ends the run. The loop over the subunit-A candidates does not stop at an
  acceptance: on the reverse strand example the subunit-B hit at position 2, marked
  reported by its first operon, is paired again with the next subunit-A hit.
\<close>

theorem assembler_accepts_adjacent_pair:
  "goodBlasts2operons [0, 1] True True ([hitA, adjB], [])
     = Inr ([hitA \<lparr>reported := True\<rparr>, adjB \<lparr>reported := True\<rparr>], [(0, 1)])
   \<and> targetEnd hitA = targetStart adjB
   \<and> shellBody past False [] [rawA, rawAdjB]
     = Inr [header [],
            [S ''contig1'', S ''stx1a'', S ''COMPLETE'', D (Fin 100), N 1001, N 1120,
             C CHR ''+'', S ''accA'', D (Fin 100), D (Fin 100), S ''accB'', D (Fin 100),
             D (Fin 100)]]
   \<and> shellBody past True [] [rawA, rawAdjB] = Inl QcAssertFailed
   \<and> goodBlasts2operons [0, 1, 2] True True
        ([revA \<lparr>reported := False\<rparr>, revA' \<lparr>reported := False\<rparr>, revB \<lparr>reported := False\<rparr>], [])
     = Inr ([revA, revA', revB], [(2, 0), (2, 1)])"
proof (intro conjI)
  show "goodBlasts2operons [0, 1] True True ([hitA, adjB], [])
     = Inr ([hitA \<lparr>reported := True\<rparr>, adjB \<lparr>reported := True\<rparr>], [(0, 1)])"
    by code_simp
  show "targetEnd hitA = targetStart adjB"
    by (simp add: hitA_def adjB_def hitB_def)
  show "shellBody past False [] [rawA, rawAdjB]
     = Inr [header [],
            [S ''contig1'', S ''stx1a'', S ''COMPLETE'', D (Fin 100), N 1001, N 1120,
             C CHR ''+'', S ''accA'', D (Fin 100), D (Fin 100), S ''accB'', D (Fin 100),
             D (Fin 100)]]"
    by code_simp
  show "shellBody past True [] [rawA, rawAdjB] = Inl QcAssertFailed"
    by code_simp
  show "goodBlasts2operons [0, 1, 2] True True
        ([revA \<lparr>reported := False\<rparr>, revA' \<lparr>reported := False\<rparr>, revB \<lparr>reported := False\<rparr>], [])
     = Inr ([revA, revA', revB], [(2, 0), (2, 1)])"
    by code_simp
qed

section \<open>Order of the report\<close>

lemma LESS_PART_iff: "LESS_PART x y r = (x < y \<or> x \<le> y \<and> r)"
  by (auto simp: LESS_PART_def)

lemma bool_flip: "((q::bool) < p) = ((\<not> p) < (\<not> q))" "((q::bool) \<le> p) = ((\<not> p) \<le> (\<not> q))"
  by auto

lemma Operon_reportLess_key: "Operon_reportLess a b = (reportKey a < reportKey b)"
  unfolding Operon_reportLess_def reportKey_def LESS_PART_iff less_prod_simp
    bool_flip [of "targetStrand (al1 b)" "targetStrand (al1 a)"]
  by simp

lemma frameshiftLess_key: "frameshiftLess a b = (frameshiftKey a < frameshiftKey b)"
  unfolding frameshiftLess_def frameshiftKey_def
  by (simp only: LESS_PART_last LESS_PART_prod)

lemma BlastAlignment_of_error: "BlastAlignment_of f = Inl e \<Longrightarrow> e = QcAssertFailed"
  by (simp add: BlastAlignment_of_def Let_def split: if_splits)

lemma parseAll_all:
  "parseAll qc_on lines =
    (if \<forall>f\<in>set lines. \<exists>al. BlastAlignment_of f = Inr al \<and> qc qc_on al
     then Inr (map (\<lambda>f. projr (BlastAlignment_of f)) lines) else Inl QcAssertFailed)"
proof (induction lines)
  case Nil
  then show ?case by simp
next
  case (Cons f fs)
  show ?case
  proof (cases "BlastAlignment_of f")
    case (Inl e)
    then show ?thesis using BlastAlignment_of_error [OF Inl] by simp
  next
    case (Inr al)
    then show ?thesis using Cons.IH by simp
  qed
qed

lemma sort_by_frameshiftLess_perm:
  assumes "mset xs = mset ys"
    and "\<forall>a\<in>set xs. \<forall>b\<in>set xs. a \<noteq> b \<longrightarrow> frameshiftKey a \<noteq> frameshiftKey b"
  shows "sort_by frameshiftLess xs = sort_by frameshiftLess ys"
proof (rule sorted_wrt_unique [where R = "\<lambda>a b. frameshiftKey a \<le> frameshiftKey b"])
  show "sorted_wrt (\<lambda>a b. frameshiftKey a \<le> frameshiftKey b) (sort_by frameshiftLess xs)"
    by (rule sorted_sort_by) (rule frameshiftLess_key)
  show "sorted_wrt (\<lambda>a b. frameshiftKey a \<le> frameshiftKey b) (sort_by frameshiftLess ys)"
    by (rule sorted_sort_by) (rule frameshiftLess_key)
  show "mset (sort_by frameshiftLess xs) = mset (sort_by frameshiftLess ys)"
    using assms(1) by (simp add: mset_sort_by)
  fix a b
  assume "a \<in> set (sort_by frameshiftLess xs)" "b \<in> set (sort_by frameshiftLess xs)"
    and le: "frameshiftKey a \<le> frameshiftKey b" "frameshiftKey b \<le> frameshiftKey a"
  then have "a \<in> set xs" "b \<in> set xs" by (simp_all add: set_sort_by)
  moreover have "frameshiftKey a = frameshiftKey b"
    using le by (rule antisym)
  ultimately show "a = b"
    using assms(2) by blast
qed

lemma parseAll_perm:
  assumes "set lines = set lines'"
  shows "(parseAll qc_on lines = Inr (map (\<lambda>f. projr (BlastAlignment_of f)) lines)
          \<and> parseAll qc_on lines' = Inr (map (\<lambda>f. projr (BlastAlignment_of f)) lines'))
       \<or> (parseAll qc_on lines = Inl QcAssertFailed \<and> parseAll qc_on lines' = Inl QcAssertFailed)"
proof (cases "\<forall>f\<in>set lines. \<exists>al. BlastAlignment_of f = Inr al \<and> qc qc_on al")
  case True
  from True have ok': "\<forall>f\<in>set lines'. \<exists>al. BlastAlignment_of f = Inr al \<and> qc qc_on al"
    unfolding assms .
  have "parseAll qc_on lines = Inr (map (\<lambda>f. projr (BlastAlignment_of f)) lines)"
    by (rule trans [OF parseAll_all if_P [OF True]])
  moreover have "parseAll qc_on lines' = Inr (map (\<lambda>f. projr (BlastAlignment_of f)) lines')"
    by (rule trans [OF parseAll_all if_P [OF ok']])
  ultimately show ?thesis by blast
next
  case False
  from False have no': "\<not> (\<forall>f\<in>set lines'. \<exists>al. BlastAlignment_of f = Inr al \<and> qc qc_on al)"
    unfolding assms .
  have "parseAll qc_on lines = Inl QcAssertFailed"
    by (rule trans [OF parseAll_all if_not_P [OF False]])
  moreover have "parseAll qc_on lines' = Inl QcAssertFailed"
    by (rule trans [OF parseAll_all if_not_P [OF no']])
  ultimately show ?thesis by blast
qed

lemma reportedOperons_perm:
  assumes "mset lines = mset lines'"
    and "\<forall>als. parseAll qc_on lines = Inr als \<longrightarrow>
          (\<forall>a\<in>set als. \<forall>b\<in>set als. a \<noteq> b \<longrightarrow> frameshiftKey a \<noteq> frameshiftKey b)"
  shows "reportedOperons past qc_on input_name lines = reportedOperons past qc_on input_name lines'"
proof -
  let ?h = "\<lambda>f. projr (BlastAlignment_of f)"
  have sets: "set lines = set lines'"
    using assms(1) by (rule mset_eq_setD)
  from parseAll_perm [OF sets, of qc_on] show ?thesis
  proof (elim disjE conjE)
    assume p: "parseAll qc_on lines = Inr (map ?h lines)"
      and p': "parseAll qc_on lines' = Inr (map ?h lines')"
    have "mset (map ?h lines) = mset (map ?h lines')"
      using assms(1) by simp
    moreover have "\<forall>a\<in>set (map ?h lines). \<forall>b\<in>set (map ?h lines).
        a \<noteq> b \<longrightarrow> frameshiftKey a \<noteq> frameshiftKey b"
      using assms(2) p by blast
    ultimately have "sort_by frameshiftLess (map ?h lines) = sort_by frameshiftLess (map ?h lines')"
      by (rule sort_by_frameshiftLess_perm)
    then show ?thesis
      by (simp add: reportedOperons_def p p' findFrameshifts_def)
  next
    assume "parseAll qc_on lines = Inl QcAssertFailed" "parseAll qc_on lines' = Inl QcAssertFailed"
    then show ?thesis
      by (simp add: reportedOperons_def)
  qed
qed

lemma report_sorted:
  "report past qc_on input_name st = Inr ops \<Longrightarrow> sorted_wrt (\<lambda>a b. reportKey a \<le> reportKey b) ops"
  using sorted_sort_by [of Operon_reportLess reportKey, OF Operon_reportLess_key]
  by (auto simp: report_def Let_def split: sum.splits)

lemma reportedOperons_sorted:
  "reportedOperons past qc_on input_name lines = Inr ops
    \<Longrightarrow> sorted_wrt (\<lambda>a b. reportKey a \<le> reportKey b) ops"
  by (auto simp: reportedOperons_def split: sum.splits dest: report_sorted)

text \<open>
  C9, as the source has it. The rows written are those of the reported operons in
  the order of the key (contig, target start, target end, strand with forward first,
  first reference accession, has-second-subunit, second reference accession), compared
  entry by entry. Two runs on the same lines given in any order write the same rows in
  the same order, provided that no two different hits of the input share contig,
  strand, reference accession, target start and target end: the first sort then puts
  the hits in one order, and all that follows is a function of it. What lies past the
  end of the strings is taken to be the same in both runs.
\<close>

theorem report_sorted_reproducible:
  "(shellBody past qc_on input_name lines = Inr out \<longrightarrow>
      (\<exists>ops rows. reportedOperons past qc_on input_name lines = Inr ops
         \<and> saveAll past input_name ops = Inr rows \<and> out = header input_name # rows
         \<and> sorted_wrt (\<lambda>a b.
              (targetName (al1 a), targetStart (al1 a), targetEnd (al1 a), \<not> targetStrand (al1 a),
               refAccession (al1 a), hasAl2 a, getRefAccession2 a)
              \<le> (targetName (al1 b), targetStart (al1 b), targetEnd (al1 b), \<not> targetStrand (al1 b),
                  refAccession (al1 b), hasAl2 b, getRefAccession2 b)) ops))
   \<and> (mset lines = mset lines'
       \<and> (\<forall>als. parseAll qc_on lines = Inr als \<longrightarrow>
            (\<forall>a\<in>set als. \<forall>b\<in>set als. a \<noteq> b \<longrightarrow>
               (targetName a, targetStrand a, refAccession a, targetStart a, targetEnd a)
               \<noteq> (targetName b, targetStrand b, refAccession b, targetStart b, targetEnd b)))
       \<longrightarrow> shellBody past qc_on input_name lines = shellBody past qc_on input_name lines')"
proof (intro conjI impI)
  assume run: "shellBody past qc_on input_name lines = Inr out"
  then obtain ops rows where ops: "reportedOperons past qc_on input_name lines = Inr ops"
    and rows: "saveAll past input_name ops = Inr rows" and out: "out = header input_name # rows"
    by (auto simp: shellBody_def split: if_splits sum.splits)
  have "sorted_wrt (\<lambda>a b. reportKey a \<le> reportKey b) ops"
    using ops by (rule reportedOperons_sorted)
  then show "\<exists>ops rows. reportedOperons past qc_on input_name lines = Inr ops
         \<and> saveAll past input_name ops = Inr rows \<and> out = header input_name # rows
         \<and> sorted_wrt (\<lambda>a b.
              (targetName (al1 a), targetStart (al1 a), targetEnd (al1 a), \<not> targetStrand (al1 a),
               refAccession (al1 a), hasAl2 a, getRefAccession2 a)
              \<le> (targetName (al1 b), targetStart (al1 b), targetEnd (al1 b), \<not> targetStrand (al1 b),
                  refAccession (al1 b), hasAl2 b, getRefAccession2 b)) ops"
    using ops rows out unfolding reportKey_def by blast
next
  assume "mset lines = mset lines'
       \<and> (\<forall>als. parseAll qc_on lines = Inr als \<longrightarrow>
            (\<forall>a\<in>set als. \<forall>b\<in>set als. a \<noteq> b \<longrightarrow>
               (targetName a, targetStrand a, refAccession a, targetStart a, targetEnd a)
               \<noteq> (targetName b, targetStrand b, refAccession b, targetStart b, targetEnd b)))"
  then have "reportedOperons past qc_on input_name lines
      = reportedOperons past qc_on input_name lines'"
    unfolding frameshiftKey_def [symmetric] by (intro reportedOperons_perm) blast+
  then show "shellBody past qc_on input_name lines = shellBody past qc_on input_name lines'"
    by (simp add: shellBody_def)
qed

theorem report_sorted_reproducible_witness:
  "sorted_wrt (\<lambda>a b.
        (targetName (al1 a), targetStart (al1 a), targetEnd (al1 a), \<not> targetStrand (al1 a),
         refAccession (al1 a), hasAl2 a, getRefAccession2 a)
        \<le> (targetName (al1 b), targetStart (al1 b), targetEnd (al1 b), \<not> targetStrand (al1 b),
            refAccession (al1 b), hasAl2 b, getRefAccession2 b)) [completeOp0, completeOp]
   \<and> shellBody zeroPast True [] [rawA, rawB, rawA0, rawB0]
       = shellBody zeroPast True [] [rawB0, rawA0, rawB, rawA]"
proof -
  let ?als = "[hitA, hitB, hitA \<lparr>targetName := ''contig0''\<rparr>, hitB \<lparr>targetName := ''contig0''\<rparr>]"
  let ?row0 = "[S ''contig0'', S ''stx1a'', S ''COMPLETE'', D (Fin 100), N 1001, N 1130,
                C CHR ''+'', S ''accA'', D (Fin 100), D (Fin 100), S ''accB'', D (Fin 100),
                D (Fin 100)]"
  let ?row1 = "[S ''contig1'', S ''stx1a'', S ''COMPLETE'', D (Fin 100), N 1001, N 1130,
                C CHR ''+'', S ''accA'', D (Fin 100), D (Fin 100), S ''accB'', D (Fin 100),
                D (Fin 100)]"
  have run: "shellBody zeroPast True [] [rawA, rawB, rawA0, rawB0] = Inr [header [], ?row0, ?row1]"
    by code_simp
  have ops: "reportedOperons zeroPast True [] [rawA, rawB, rawA0, rawB0]
      = Inr [completeOp0, completeOp]"
    by code_simp
  have m: "mset [rawA, rawB, rawA0, rawB0] = mset [rawB0, rawA0, rawB, rawA]"
    by simp
  have p: "parseAll True [rawA, rawB, rawA0, rawB0] = Inr ?als"
    by code_simp
  have "distinct (map frameshiftKey ?als)"
    by code_simp
  then have "inj_on frameshiftKey (set ?als)"
    using distinct_map by blast
  then have d: "\<forall>a\<in>set ?als. \<forall>b\<in>set ?als. a \<noteq> b \<longrightarrow> frameshiftKey a \<noteq> frameshiftKey b"
    by (blast dest: inj_onD)
  have h: "\<forall>als. parseAll True [rawA, rawB, rawA0, rawB0] = Inr als \<longrightarrow>
      (\<forall>a\<in>set als. \<forall>b\<in>set als. a \<noteq> b \<longrightarrow>
         (targetName a, targetStrand a, refAccession a, targetStart a, targetEnd a)
         \<noteq> (targetName b, targetStrand b, refAccession b, targetStart b, targetEnd b))"
  proof (intro allI impI)
    fix als
    assume "parseAll True [rawA, rawB, rawA0, rawB0] = Inr als"
    then have "als = ?als"
      unfolding p by simp
    then show "\<forall>a\<in>set als. \<forall>b\<in>set als. a \<noteq> b \<longrightarrow>
         (targetName a, targetStrand a, refAccession a, targetStart a, targetEnd a)
         \<noteq> (targetName b, targetStrand b, refAccession b, targetStart b, targetEnd b)"
      using d unfolding frameshiftKey_def by (simp only:)
  qed
  from report_sorted_reproducible
    [of zeroPast True "[]" "[rawA, rawB, rawA0, rawB0]" "[header [], ?row0, ?row1]"
        "[rawB0, rawA0, rawB, rawA]"]
  have both: "(\<exists>ops rows. reportedOperons zeroPast True [] [rawA, rawB, rawA0, rawB0] = Inr ops
         \<and> saveAll zeroPast [] ops = Inr rows \<and> [header [], ?row0, ?row1] = header [] # rows
         \<and> sorted_wrt (\<lambda>a b.
              (targetName (al1 a), targetStart (al1 a), targetEnd (al1 a), \<not> targetStrand (al1 a),
               refAccession (al1 a), hasAl2 a, getRefAccession2 a)
              \<le> (targetName (al1 b), targetStart (al1 b), targetEnd (al1 b), \<not> targetStrand (al1 b),
                  refAccession (al1 b), hasAl2 b, getRefAccession2 b)) ops)
    \<and> shellBody zeroPast True [] [rawA, rawB, rawA0, rawB0]
        = shellBody zeroPast True [] [rawB0, rawA0, rawB, rawA]"
    using run m h by blast
  then show ?thesis
    unfolding ops by blast
qed

text \<open>
  C9 as stated fails. The lines \<open>rawTie1\<close> and \<open>rawTie2\<close> are two alignments of one
  stretch of the contig to one reference; they agree in every key of the sorts before
  the hit filter, the filter keeps the one that comes first, and the row written shows
  its identity: 90 when \<open>rawTie1\<close> is the first line, 1900/21 when \<open>rawTie2\<close> is. So
  the same lines in another order give another report. Nor does the key order all
  reported operons: the three lines \<open>rawRevB\<close>, \<open>rawRevA\<close>, \<open>rawRevA'\<close> yield two
  different operons that share their first hit and the reference accession of their
  second hit; neither is less than the other, and their rows differ.
\<close>

theorem report_line_order_counterexample:
  "mset [rawTie1, rawTie2] = mset [rawTie2, rawTie1]
   \<and> shellBody zeroPast True [] [rawTie1, rawTie2]
     = Inr [header [],
            [S ''contig1'', S ''stx1'', S ''PARTIAL'', S [], N 1001, N 1060, C CHR ''+'',
             S ''accA'', D (Fin 90), D (Fin 100), S [], S [], S []]]
   \<and> shellBody zeroPast True [] [rawTie2, rawTie1]
     = Inr [header [],
            [S ''contig1'', S ''stx1'', S ''PARTIAL'', S [], N 1001, N 1060, C CHR ''+'',
             S ''accA'', D (Fin (1900 / 21)), D (Fin 100), S [], S [], S []]]
   \<and> shellBody zeroPast True [] [rawTie1, rawTie2] \<noteq> shellBody zeroPast True [] [rawTie2, rawTie1]
   \<and> reportedOperons zeroPast True [] [rawRevB, rawRevA, rawRevA'] = Inr [tieOp1, tieOp2]
   \<and> tieOp1 \<noteq> tieOp2
   \<and> \<not> Operon_reportLess tieOp1 tieOp2 \<and> \<not> Operon_reportLess tieOp2 tieOp1
   \<and> shellBody zeroPast True [] [rawRevB, rawRevA, rawRevA']
     = Inr [header [],
            [S ''contig1'', S ''stx1'', S ''PARTIAL'', D (Fin 100), N 1001, N 1130,
             C CHR ''-'', S ''accA'', D (Fin 100), D (Fin (100 / 3)), S ''accB'', D (Fin 100),
             D (Fin 100)],
            [S ''contig1'', S ''stx1'', S ''PARTIAL'', D (Fin (295 / 3)), N 1001, N 1193,
             C CHR ''-'', S ''accA'', D (Fin (195 / 2)), D (Fin (200 / 3)), S ''accB'',
             D (Fin 100), D (Fin 100)]]"
proof (intro conjI)
  show "mset [rawTie1, rawTie2] = mset [rawTie2, rawTie1]"
    by simp
  show "shellBody zeroPast True [] [rawTie1, rawTie2]
     = Inr [header [],
            [S ''contig1'', S ''stx1'', S ''PARTIAL'', S [], N 1001, N 1060, C CHR ''+'',
             S ''accA'', D (Fin 90), D (Fin 100), S [], S [], S []]]"
    by code_simp
  show "shellBody zeroPast True [] [rawTie2, rawTie1]
     = Inr [header [],
            [S ''contig1'', S ''stx1'', S ''PARTIAL'', S [], N 1001, N 1060, C CHR ''+'',
             S ''accA'', D (Fin (1900 / 21)), D (Fin 100), S [], S [], S []]]"
    by code_simp
  show "shellBody zeroPast True [] [rawTie1, rawTie2] \<noteq> shellBody zeroPast True [] [rawTie2, rawTie1]"
    by code_simp
  show "reportedOperons zeroPast True [] [rawRevB, rawRevA, rawRevA'] = Inr [tieOp1, tieOp2]"
    by code_simp
  show "tieOp1 \<noteq> tieOp2"
    by code_simp
  show "\<not> Operon_reportLess tieOp1 tieOp2"
    by code_simp
  show "\<not> Operon_reportLess tieOp2 tieOp1"
    by code_simp
  show "shellBody zeroPast True [] [rawRevB, rawRevA, rawRevA']
     = Inr [header [],
            [S ''contig1'', S ''stx1'', S ''PARTIAL'', D (Fin 100), N 1001, N 1130,
             C CHR ''-'', S ''accA'', D (Fin 100), D (Fin (100 / 3)), S ''accB'', D (Fin 100),
             D (Fin 100)],
            [S ''contig1'', S ''stx1'', S ''PARTIAL'', D (Fin (295 / 3)), N 1001, N 1193,
             C CHR ''-'', S ''accA'', D (Fin (195 / 2)), D (Fin (200 / 3)), S ''accB'',
             D (Fin 100), D (Fin 100)]]"
    by code_simp
qed

end
